theory Spec2Isabelle
  imports Complex_Main "HOL-Library.Sublist" "HOL-Library.Multiset"
begin

section \<open>Job-demand forecasting pipeline: a shallow embedding\<close>

text \<open>
  The Python sources are embedded function by function. NumPy arrays of one dimension are
  lists; a finite Python float is the real number it denotes; Python integers are
  \<^typ>\<open>int\<close>, and a quantity that the source only ever uses as a length (a window
  size) is a \<^typ>\<open>nat\<close>. Where the rounding of floating-point arithmetic decides what a
  function returns (the cut indices of the split, the samples stored in single precision)
  the rounding is part of the model; the scalers and the predictor compute on the reals.
  Every \<open>raise\<close> of the source is a constructor of \<open>error\<close>; a function that can raise
  returns \<open>error + 'a\<close> with \<open>Inl\<close> for the exception.
\<close>

subsection \<open>Exceptions\<close>

datatype error =
    NotFitted              \<comment> \<open>\<open>ValueError("Model must be fitted before prediction")\<close>, ml/baselines.py\<close>
  | NegativeDimensions     \<comment> \<open>\<open>ValueError\<close> of \<open>np.full\<close> on a negative length\<close>
  | IndexError             \<comment> \<open>index out of range\<close>
  | SplitRatiosAssertion   \<comment> \<open>\<open>AssertionError("Split ratios must sum to 1.0")\<close>, ml/datasets.py\<close>
  | UnknownScalerType      \<comment> \<open>\<open>ValueError("Unknown scaler_type: ...")\<close>, ml/datasets.py\<close>
  | ScalerNotFitted        \<comment> \<open>scikit-learn's \<open>NotFittedError\<close>\<close>
  | ScalerEmptyInput       \<comment> \<open>scikit-learn's \<open>ValueError\<close> on an array with 0 samples\<close>
  | BroadcastError         \<comment> \<open>NumPy's \<open>ValueError\<close>: operands could not be broadcast together\<close>
  | ModelNotFound          \<comment> \<open>\<open>FileNotFoundError("No trained model found ...")\<close>, services/forecast.py\<close>
  | DataNotFound           \<comment> \<open>\<open>FileNotFoundError("No data found ...")\<close>, services/data_store.py\<close>
  | InsufficientHistory nat nat
                           \<comment> \<open>\<open>ValueError("Insufficient historical data: need at least w weeks, got n")\<close>\<close>
  | ArtifactLoadError      \<comment> \<open>any exception raised inside \<open>load_model_artifacts\<close>\<close>
  | OverflowError          \<comment> \<open>\<open>int()\<close> of an infinite float, \<open>float()\<close> of an integer beyond the doubles\<close>

subsection \<open>Python sequence operations\<close>

text \<open>\<open>xs[a:b]\<close> for indices \<open>0 \<le> a\<close>, \<open>0 \<le> b\<close>: out-of-range bounds are clipped.\<close>

definition slice :: "'a list \<Rightarrow> nat \<Rightarrow> nat \<Rightarrow> 'a list" where
  "slice xs a b = take (b - a) (drop a xs)"

text \<open>
  \<open>xs[a:b]\<close> for arbitrary Python integers (also \<open>DataFrame.iloc[a:b]\<close>): a negative
  bound counts from the end; \<open>None\<close> is an omitted bound.
\<close>

definition norm_index :: "nat \<Rightarrow> int \<Rightarrow> nat" where
  "norm_index n i = (if i < 0 then nat (int n + i) else min n (nat i))"

definition py_slice :: "'a list \<Rightarrow> int option \<Rightarrow> int option \<Rightarrow> 'a list" where
  "py_slice xs a b =
     (let n = length xs;
          lo = (case a of None \<Rightarrow> 0 | Some i \<Rightarrow> norm_index n i);
          hi = (case b of None \<Rightarrow> n | Some j \<Rightarrow> norm_index n j)
      in slice xs lo hi)"

text \<open>\<open>xs[i]\<close>: a negative index counts from the end, out of range raises \<open>IndexError\<close>.\<close>

definition py_get :: "'a list \<Rightarrow> int \<Rightarrow> error + 'a" where
  "py_get xs i =
     (if i < - int (length xs) \<or> int (length xs) \<le> i then Inl IndexError
      else Inr (xs ! nat (if i < 0 then int (length xs) + i else i)))"

subsection \<open>IEEE 754 binary floating point\<close>

text \<open>
  A finite float is the real number it denotes. The result of an arithmetic operation, of
  a conversion to a narrower format and of reading a decimal literal is the exact result
  rounded to the nearest value of the format, ties to the even significand:
  \<open>binary_round p emin x\<close> rounds \<open>x\<close> to \<open>p\<close> significant bits with least exponent
  \<open>emin\<close> (below it the spacing stays that of the subnormal numbers). A rounded magnitude
  of \<open>2 ^ 1024\<close> or more (\<open>2 ^ 128\<close> in single precision) is an infinity.
\<close>

definition round_half_even :: "real \<Rightarrow> int" where
  "round_half_even q =
     (if q - of_int \<lfloor>q\<rfloor> < 1 / 2 then \<lfloor>q\<rfloor>
      else if 1 / 2 < q - of_int \<lfloor>q\<rfloor> then \<lfloor>q\<rfloor> + 1
      else if even \<lfloor>q\<rfloor> then \<lfloor>q\<rfloor> else \<lfloor>q\<rfloor> + 1)"

definition binary_round :: "nat \<Rightarrow> int \<Rightarrow> real \<Rightarrow> real" where
  "binary_round p emin x =
     (if x = 0 then 0
      else
        let e = max \<lfloor>log 2 \<bar>x\<bar>\<rfloor> emin;
            ulp = 2 powi (e - (int p - 1))
        in sgn x * of_int (round_half_even (\<bar>x\<bar> / ulp)) * ulp)"

text \<open>
  Double precision, the Python \<open>float\<close>: \<open>None\<close> stands for an infinite result.
  \<open>float64_literal\<close> is the value of a decimal literal of the source such as \<open>0.7\<close>
  or \<open>1e-6\<close>.
\<close>

definition float64 :: "real \<Rightarrow> real option" where
  "float64 x =
     (let r = binary_round 53 (- 1022) x in if 2 ^ 1024 \<le> \<bar>r\<bar> then None else Some r)"

definition float64_literal :: "real \<Rightarrow> real" where
  "float64_literal x = binary_round 53 (- 1022) x"

definition fadd :: "real \<Rightarrow> real \<Rightarrow> real option" where
  "fadd x y = float64 (x + y)"

definition fsub :: "real \<Rightarrow> real \<Rightarrow> real option" where
  "fsub x y = float64 (x - y)"

definition fmul :: "real \<Rightarrow> real \<Rightarrow> real option" where
  "fmul x y = float64 (x * y)"

text \<open>Single precision, NumPy's \<open>float32\<close>; \<open>Infinity32 True\<close> is minus infinity.\<close>

datatype float32 = Finite32 real | Infinity32 bool

definition to_float32 :: "real \<Rightarrow> float32" where
  "to_float32 x =
     (let r = binary_round 24 (- 126) x
      in if 2 ^ 128 \<le> \<bar>r\<bar> then Infinity32 (x < 0) else Finite32 r)"

subsection \<open>ml/baselines.py: NaiveBaseline\<close>

text \<open>
  The object state is the attribute \<open>last_value\<close>, \<open>None\<close> after \<open>__init__\<close>.
  \<open>fit\<close> assigns it; \<open>predict\<close> reads it.
\<close>

record NaiveBaseline =
  last_value :: "real option"

definition NaiveBaseline_init :: NaiveBaseline where
  "NaiveBaseline_init = \<lparr>last_value = None\<rparr>"

definition naive_fit :: "NaiveBaseline \<Rightarrow> real list \<Rightarrow> NaiveBaseline" where
  "naive_fit self train_data =
     self\<lparr>last_value := Some (if length train_data > 0 then last train_data else 0)\<rparr>"

definition naive_predict :: "NaiveBaseline \<Rightarrow> int \<Rightarrow> error + real list" where
  "naive_predict self horizon =
     (case last_value self of
        None \<Rightarrow> Inl NotFitted
      | Some v \<Rightarrow> if horizon < 0 then Inl NegativeDimensions
                  else Inr (replicate (nat horizon) v))"

text \<open>The object after a sequence of \<open>fit\<close> calls, oldest first, on a fresh instance.\<close>

definition naive_after_fits :: "real list list \<Rightarrow> NaiveBaseline" where
  "naive_after_fits calls = foldl naive_fit NaiveBaseline_init calls"

subsection \<open>ml/datasets.py: TimeSeriesDataset\<close>

text \<open>
  The constructor's loop \<open>for i in range(len(data) - window_size)\<close> appends one window and
  one target per iteration; the loop state is the pair of lists \<open>(X, y)\<close>. Inside the loop
  \<open>i + window_size < len(data)\<close>, so the read \<open>data[i + window_size]\<close> is in range.
  After the loop \<open>np.array(..., dtype=np.float32)\<close> converts every stored value to single
  precision; \<open>self.data\<close> keeps the array that was passed. The final reshape to
  \<open>(len(X), window_size, 1)\<close> only adds a trailing axis of length 1.
\<close>

record TimeSeriesDataset =
  ds_data :: "real list"
  ds_window_size :: nat
  ds_X :: "float32 list list"
  ds_y :: "float32 list"

definition window_step :: "real list \<Rightarrow> nat \<Rightarrow> real list list \<times> real list \<Rightarrow> nat
    \<Rightarrow> real list list \<times> real list" where
  "window_step data w acc i =
     (fst acc @ [slice data i (i + w)], snd acc @ [data ! (i + w)])"

definition TimeSeriesDataset_init :: "real list \<Rightarrow> nat \<Rightarrow> TimeSeriesDataset" where
  "TimeSeriesDataset_init data w =
     (let acc = foldl (window_step data w) ([], []) [0 ..< length data - w]
      in \<lparr>ds_data = data, ds_window_size = w,
          ds_X = map (map to_float32) (fst acc), ds_y = map to_float32 (snd acc)\<rparr>)"

definition dataset_len :: "TimeSeriesDataset \<Rightarrow> nat" where
  "dataset_len self = length (ds_X self)"

definition dataset_getitem ::
    "TimeSeriesDataset \<Rightarrow> int \<Rightarrow> error + (float32 list \<times> float32)" where
  "dataset_getitem self idx =
     (case py_get (ds_X self) idx of
        Inl e \<Rightarrow> Inl e
      | Inr x \<Rightarrow> (case py_get (ds_y self) idx of Inl e \<Rightarrow> Inl e | Inr t \<Rightarrow> Inr (x, t)))"

subsection \<open>ml/datasets.py: split_time_series\<close>

text \<open>
  A DataFrame with the columns \<open>week_start\<close> and \<open>postings_count\<close> is a list of rows; a
  date is its proleptic Gregorian ordinal (\<open>date.toordinal()\<close>), so that comparing dates is
  comparing integers and \<open>timedelta(weeks=k)\<close> adds \<open>7 * k\<close>.
\<close>

type_synonym row = "int \<times> real"

type_synonym dataframe = "row list"

text \<open>Python's \<open>int(x)\<close> on a finite float truncates towards zero.\<close>

definition py_int :: "real \<Rightarrow> int" where
  "py_int x = (if x < 0 then \<lceil>x\<rceil> else \<lfloor>x\<rfloor>)"

text \<open>
  \<open>data.sort_values(date_col).reset_index(drop=True)\<close>: rows ascending by date. The
  order pandas leaves among rows of equal date is not fixed by the source; the model keeps
  their input order.
\<close>

definition sort_values :: "dataframe \<Rightarrow> dataframe" where
  "sort_values df = sort_key fst df"

text \<open>
  The guard \<open>abs(train_ratio + val_ratio + test_ratio - 1.0) < 1e-6\<close>, evaluated left to
  right in double precision. An infinite intermediate result stays infinite, and the
  comparison is then false.
\<close>

definition ratios_accepted :: "real \<Rightarrow> real \<Rightarrow> real \<Rightarrow> bool" where
  "ratios_accepted train_ratio val_ratio test_ratio =
     (case fadd train_ratio val_ratio of
        None \<Rightarrow> False
      | Some s \<Rightarrow>
          (case fadd s test_ratio of
             None \<Rightarrow> False
           | Some t \<Rightarrow>
               (case fsub t 1 of
                  None \<Rightarrow> False
                | Some d \<Rightarrow> \<bar>d\<bar> < float64_literal (1 / 1000000))))"

text \<open>
  \<open>int(n * ratio)\<close>: the integer \<open>n\<close> is converted to a float, the product is rounded
  to a double and then truncated. Converting an integer beyond the doubles and truncating
  an infinite product both raise \<open>OverflowError\<close>.
\<close>

definition cut_index :: "nat \<Rightarrow> real \<Rightarrow> error + int" where
  "cut_index n ratio =
     (case float64 (real n) of
        None \<Rightarrow> Inl OverflowError
      | Some nf \<Rightarrow>
          (case fmul nf ratio of
             None \<Rightarrow> Inl OverflowError
           | Some p \<Rightarrow> Inr (py_int p)))"

definition split_time_series ::
    "dataframe \<Rightarrow> real \<Rightarrow> real \<Rightarrow> real \<Rightarrow> error + (dataframe \<times> dataframe \<times> dataframe)" where
  "split_time_series df train_ratio val_ratio test_ratio =
     (if \<not> ratios_accepted train_ratio val_ratio test_ratio
      then Inl SplitRatiosAssertion
      else
        let sorted_df = sort_values df;
            n = length sorted_df
        in case cut_index n train_ratio of
             Inl e \<Rightarrow> Inl e
           | Inr train_end \<Rightarrow>
               (case fadd train_ratio val_ratio of
                  None \<Rightarrow> Inl OverflowError
                | Some s \<Rightarrow>
                    (case cut_index n s of
                       Inl e \<Rightarrow> Inl e
                     | Inr val_end \<Rightarrow>
                         Inr (py_slice sorted_df None (Some train_end),
                              py_slice sorted_df (Some train_end) (Some val_end),
                              py_slice sorted_df (Some val_end) None))))"

text \<open>
  The split as the specification words it, in exact arithmetic: the rows of the sorted
  series whose index lies in the half-open intervals \<open>[0, floor(N r_train))\<close>,
  \<open>[floor(N r_train), floor(N (r_train + r_val)))\<close> and
  \<open>[floor(N (r_train + r_val)), N)\<close>, for ratios whose sum is within \<open>1e-6\<close> of 1.
\<close>

definition rows_between :: "'a list \<Rightarrow> int \<Rightarrow> int \<Rightarrow> 'a list" where
  "rows_between xs lo hi =
     map ((!) xs) (filter (\<lambda>i. lo \<le> int i \<and> int i < hi) [0 ..< length xs])"

definition spec_split ::
    "dataframe \<Rightarrow> real \<Rightarrow> real \<Rightarrow> real \<Rightarrow> error + (dataframe \<times> dataframe \<times> dataframe)" where
  "spec_split df r_train r_val r_test =
     (if \<bar>r_train + r_val + r_test - 1\<bar> < 1 / 1000000
      then
        let sorted_df = sort_values df;
            N = length df;
            train_end = \<lfloor>real N * r_train\<rfloor>;
            val_end = \<lfloor>real N * (r_train + r_val)\<rfloor>
        in Inr (rows_between sorted_df 0 train_end,
                rows_between sorted_df train_end val_end,
                rows_between sorted_df val_end (int N))
      else Inl SplitRatiosAssertion)"

text \<open>
  The same split with the guard, the sum and the two products computed in double
  precision, as the source computes them: the cut indices are the floors of the rounded
  products.
\<close>

definition floor_cut :: "nat \<Rightarrow> real \<Rightarrow> error + int" where
  "floor_cut N ratio =
     (case float64 (real N) of
        None \<Rightarrow> Inl OverflowError
      | Some nf \<Rightarrow>
          (case fmul nf ratio of
             None \<Rightarrow> Inl OverflowError
           | Some p \<Rightarrow> Inr \<lfloor>p\<rfloor>))"

definition double_split ::
    "dataframe \<Rightarrow> real \<Rightarrow> real \<Rightarrow> real \<Rightarrow> error + (dataframe \<times> dataframe \<times> dataframe)" where
  "double_split df r_train r_val r_test =
     (if ratios_accepted r_train r_val r_test
      then
        (case floor_cut (length df) r_train of
           Inl e \<Rightarrow> Inl e
         | Inr train_end \<Rightarrow>
             (case fadd r_train r_val of
                None \<Rightarrow> Inl OverflowError
              | Some s \<Rightarrow>
                  (case floor_cut (length df) s of
                     Inl e \<Rightarrow> Inl e
                   | Inr val_end \<Rightarrow>
                       Inr (rows_between (sort_values df) 0 train_end,
                            rows_between (sort_values df) train_end val_end,
                            rows_between (sort_values df) val_end (int (length df))))))
      else Inl SplitRatiosAssertion)"

text \<open>The sizes of the three parts, and a series of \<open>n\<close> consecutive weeks.\<close>

definition split_lengths ::
    "error + (dataframe \<times> dataframe \<times> dataframe) \<Rightarrow> error + (nat \<times> nat \<times> nat)" where
  "split_lengths res =
     (case res of
        Inl e \<Rightarrow> Inl e
      | Inr parts \<Rightarrow>
          Inr (length (fst parts), length (fst (snd parts)), length (snd (snd parts))))"

definition weekly_series :: "nat \<Rightarrow> dataframe" where
  "weekly_series n = map (\<lambda>i. (7 * int i, real i)) [0 ..< n]"

subsection \<open>scikit-learn scalers (external library)\<close>

text \<open>
  \<open>StandardScaler\<close> and \<open>MinMaxScaler\<close> are not code of the repository. They are modelled
  from their documented behaviour on one feature column: a scaler object carries its
  fitted attributes, absent before \<open>fit\<close>; \<open>fit\<close> computes them from its argument alone;
  \<open>transform\<close> and \<open>inverse_transform\<close> read them and assign nothing; all three reject an
  array with no samples, and the transforms check fittedness first.
  \<^item> \<open>StandardScaler\<close>: \<open>(mean_, var_, scale_)\<close>, \<open>scale_ = sqrt(var_)\<close>, a zero scale
    replaced by \<open>1\<close>;
  \<^item> \<open>MinMaxScaler\<close> with \<open>feature_range = (0, 1)\<close>:
    \<open>(data_min_, data_max_, scale_, min_)\<close>.
\<close>

datatype scaler =
    StandardScaler "(real \<times> real \<times> real) option"
  | MinMaxScaler "(real \<times> real \<times> real \<times> real) option"

definition np_mean :: "real list \<Rightarrow> real" where
  "np_mean xs = sum_list xs / real (length xs)"

definition np_var :: "real list \<Rightarrow> real" where
  "np_var xs = np_mean (map (\<lambda>x. (x - np_mean xs)\<^sup>2) xs)"

definition handle_zeros_in_scale :: "real \<Rightarrow> real" where
  "handle_zeros_in_scale s = (if s = 0 then 1 else s)"

fun scaler_fit :: "scaler \<Rightarrow> real list \<Rightarrow> error + scaler" where
  "scaler_fit sc [] = Inl ScalerEmptyInput"
| "scaler_fit (StandardScaler old) (x # xs) =
     Inr (StandardScaler (Some (np_mean (x # xs), np_var (x # xs),
                                handle_zeros_in_scale (sqrt (np_var (x # xs))))))"
| "scaler_fit (MinMaxScaler old) (x # xs) =
     (let data_min = fold min xs x;
          data_max = fold max xs x;
          scale = 1 / handle_zeros_in_scale (data_max - data_min)
      in Inr (MinMaxScaler (Some (data_min, data_max, scale, 0 - data_min * scale))))"

fun scaler_transform :: "scaler \<Rightarrow> real list \<Rightarrow> error + real list" where
  "scaler_transform (StandardScaler None) xs = Inl ScalerNotFitted"
| "scaler_transform (MinMaxScaler None) xs = Inl ScalerNotFitted"
| "scaler_transform sc [] = Inl ScalerEmptyInput"
| "scaler_transform (StandardScaler (Some (mean, var, scale))) xs =
     Inr (map (\<lambda>x. (x - mean) / scale) xs)"
| "scaler_transform (MinMaxScaler (Some (data_min, data_max, scale, min0))) xs =
     Inr (map (\<lambda>x. x * scale + min0) xs)"

fun scaler_inverse_transform :: "scaler \<Rightarrow> real list \<Rightarrow> error + real list" where
  "scaler_inverse_transform (StandardScaler None) xs = Inl ScalerNotFitted"
| "scaler_inverse_transform (MinMaxScaler None) xs = Inl ScalerNotFitted"
| "scaler_inverse_transform sc [] = Inl ScalerEmptyInput"
| "scaler_inverse_transform (StandardScaler (Some (mean, var, scale))) xs =
     Inr (map (\<lambda>x. x * scale + mean) xs)"
| "scaler_inverse_transform (MinMaxScaler (Some (data_min, data_max, scale, min0))) xs =
     Inr (map (\<lambda>x. (x - min0) / scale) xs)"

fun is_fitted :: "scaler \<Rightarrow> bool" where
  "is_fitted (StandardScaler p) = (p \<noteq> None)"
| "is_fitted (MinMaxScaler p) = (p \<noteq> None)"

subsection \<open>ml/datasets.py: prepare_datasets\<close>

text \<open>
  \<open>df[value_col].values\<close> is the value column. The optional argument \<open>scaler\<close> is a
  pre-fitted scaler object or \<open>None\<close>; only for \<open>None\<close> is a scaler constructed from
  \<open>scaler_type\<close> and fitted, on the training values and nothing else.
\<close>

definition values_of :: "dataframe \<Rightarrow> real list" where
  "values_of df = map snd df"

definition new_scaler :: "string \<Rightarrow> error + scaler" where
  "new_scaler scaler_type =
     (if scaler_type = ''standard'' then Inr (StandardScaler None)
      else if scaler_type = ''minmax'' then Inr (MinMaxScaler None)
      else Inl UnknownScalerType)"

definition obtain_scaler :: "string \<Rightarrow> scaler option \<Rightarrow> real list \<Rightarrow> error + scaler" where
  "obtain_scaler scaler_type given train_values =
     (case given of
        Some sc \<Rightarrow> Inr sc
      | None \<Rightarrow>
          (case new_scaler scaler_type of
             Inl e \<Rightarrow> Inl e
           | Inr sc \<Rightarrow> scaler_fit sc train_values))"

record prepared =
  train_dataset :: TimeSeriesDataset
  val_dataset :: TimeSeriesDataset
  test_dataset :: TimeSeriesDataset
  fitted_scaler :: scaler

definition prepare_datasets ::
    "dataframe \<Rightarrow> dataframe \<Rightarrow> dataframe \<Rightarrow> nat \<Rightarrow> string \<Rightarrow> scaler option \<Rightarrow> error + prepared" where
  "prepare_datasets train_df val_df test_df window_size scaler_type given =
     (case obtain_scaler scaler_type given (values_of train_df) of
        Inl e \<Rightarrow> Inl e
      | Inr sc \<Rightarrow>
          (case scaler_transform sc (values_of train_df) of
             Inl e \<Rightarrow> Inl e
           | Inr train_scaled \<Rightarrow>
               (case scaler_transform sc (values_of val_df) of
                  Inl e \<Rightarrow> Inl e
                | Inr val_scaled \<Rightarrow>
                    (case scaler_transform sc (values_of test_df) of
                       Inl e \<Rightarrow> Inl e
                     | Inr test_scaled \<Rightarrow>
                         Inr \<lparr>train_dataset = TimeSeriesDataset_init train_scaled window_size,
                              val_dataset = TimeSeriesDataset_init val_scaled window_size,
                              test_dataset = TimeSeriesDataset_init test_scaled window_size,
                              fitted_scaler = sc\<rparr>))))"

subsection \<open>ml/evaluate.py and ml/baselines.py: directional accuracy\<close>

text \<open>
  The directional-accuracy entry of \<open>compute_metrics\<close>; \<open>compute_baseline_metrics\<close> has
  the same lines. A metric is a float that may be NaN. \<open>np.diff\<close> gives the consecutive
  differences, \<open>> 0\<close> turns each into a boolean, \<open>==\<close> compares the two boolean arrays
  elementwise (NumPy broadcasts an array of length 1 and rejects other unequal lengths),
  and \<open>np.mean\<close> of booleans is the fraction of \<open>True\<close> (NaN on an empty array).
\<close>

datatype metric = NaN | Val real

definition np_diff :: "real list \<Rightarrow> real list" where
  "np_diff xs = map (\<lambda>(a, b). b - a) (zip xs (tl xs))"

definition np_equal :: "bool list \<Rightarrow> bool list \<Rightarrow> error + bool list" where
  "np_equal xs ys =
     (if length xs = length ys then Inr (map (\<lambda>(a, b). a = b) (zip xs ys))
      else if length xs = 1 then Inr (map (\<lambda>b. hd xs = b) ys)
      else if length ys = 1 then Inr (map (\<lambda>a. a = hd ys) xs)
      else Inl BroadcastError)"

definition np_mean_bool :: "bool list \<Rightarrow> metric" where
  "np_mean_bool bs =
     (if bs = [] then NaN else Val (real (length (filter id bs)) / real (length bs)))"

fun times100 :: "metric \<Rightarrow> metric" where
  "times100 NaN = NaN"
| "times100 (Val v) = Val (v * 100)"

definition directional_accuracy :: "real list \<Rightarrow> real list \<Rightarrow> error + metric" where
  "directional_accuracy y_true y_pred =
     (if length y_true > 1 then
        let true_deltas = map (\<lambda>d. d > 0) (np_diff y_true);
            pred_deltas = map (\<lambda>d. d > 0) (np_diff y_pred)
        in (case np_equal true_deltas pred_deltas of
              Inl e \<Rightarrow> Inl e
            | Inr same \<Rightarrow> Inr (times100 (np_mean_bool same)))
      else Inr NaN)"

text \<open>
  The metric as the specification words it: the percentage of consecutive-pair indices
  \<open>i\<close> with \<open>sign (y_true[i+1] - y_true[i]) = sign (y_pred[i+1] - y_pred[i])\<close>, NaN for
  fewer than two points.
\<close>

definition spec_directional_accuracy :: "real list \<Rightarrow> real list \<Rightarrow> metric" where
  "spec_directional_accuracy y_true y_pred =
     (if length y_true < 2 then NaN
      else Val (real (length (filter
                  (\<lambda>i. sgn (y_true ! Suc i - y_true ! i) = sgn (y_pred ! Suc i - y_pred ! i))
                  [0 ..< length y_true - 1]))
                / real (length y_true - 1) * 100))"

subsection \<open>Slugs: ml/train.py (export) and backend/app/config.py (serving)\<close>

text \<open>
  Strings are lists of bytes. \<open>str.lower\<close> is modelled on the ASCII letters; both sides
  call the same \<open>lower\<close>, so the comparison of the two keys does not depend on it.
  \<open>str.replace(old, new)\<close> replaces the non-overlapping occurrences of \<open>old\<close> from the left.
\<close>

definition lower_char :: "char \<Rightarrow> char" where
  "lower_char c =
     (case map_of (zip ''ABCDEFGHIJKLMNOPQRSTUVWXYZ'' ''abcdefghijklmnopqrstuvwxyz'') c of
        Some l \<Rightarrow> l
      | None \<Rightarrow> c)"

definition str_lower :: "string \<Rightarrow> string" where
  "str_lower s = map lower_char s"

fun str_replace :: "string \<Rightarrow> string \<Rightarrow> string \<Rightarrow> string" where
  "str_replace old new [] = (if old = [] then new else [])"
| "str_replace old new (c # cs) =
     (if old = [] then new @ concat (map (\<lambda>x. x # new) (c # cs))
      else if prefix old (c # cs) then new @ str_replace old new (drop (length old) (c # cs))
      else c # str_replace old new cs)"

text \<open>\<open>sub in s\<close> on strings.\<close>

fun str_contains :: "string \<Rightarrow> string \<Rightarrow> bool" where
  "str_contains sub [] = (sub = [])"
| "str_contains sub (c # cs) = (prefix sub (c # cs) \<or> str_contains sub cs)"

text \<open>\<open>while "__" in s: s = s.replace("__", "_")\<close>\<close>

function collapse_underscores :: "string \<Rightarrow> string" where
  "collapse_underscores s =
     (if str_contains ''__'' s then collapse_underscores (str_replace ''__'' ''_'' s) else s)"
  by pat_completeness auto
termination
proof (relation "measure length")
  show "wf (measure length)" by simp
next
  fix s :: string
  have le: "length (str_replace old new r) \<le> length r"
    if "old \<noteq> []" "length new \<le> length old" for old new r :: string
  proof (induction r rule: length_induct)
    case (1 r)
    show ?case
    proof (cases r)
      case Nil
      with that show ?thesis by simp
    next
      case (Cons c cs)
      show ?thesis
      proof (cases "prefix old r")
        case True
        then obtain q where q: "r = old @ q"
          by (auto simp: prefix_def)
        from Cons True that have unf:
          "str_replace old new r = new @ str_replace old new (drop (length old) r)"
          by simp
        from q that 1 have "length (str_replace old new q) \<le> length q" by simp
        with q that show ?thesis unfolding unf by simp
      next
        case False
        from 1 Cons have "length (str_replace old new cs) \<le> length cs" by simp
        with False Cons that show ?thesis by simp
      qed
    qed
  qed
  have shrink: "length (str_replace old new t) < length t"
    if "old \<noteq> []" "length new < length old" "str_contains old t" for old new t :: string
    using that(3)
  proof (induction t)
    case Nil
    with that show ?case by simp
  next
    case (Cons c cs)
    show ?case
    proof (cases "prefix old (c # cs)")
      case True
      then obtain q where q: "c # cs = old @ q"
        by (auto simp: prefix_def)
      from True that have unf: "str_replace old new (c # cs)
          = new @ str_replace old new (drop (length old) (c # cs))"
        by simp
      have "length (str_replace old new q) \<le> length q"
        using that by (intro le) simp_all
      moreover from q have "drop (length old) (c # cs) = q"
        by simp
      moreover from q have "length (c # cs) = length old + length q"
        by (metis length_append)
      ultimately show ?thesis
        using that unfolding unf by simp
    next
      case False
      with Cons that show ?thesis by simp
    qed
  qed
  assume "str_contains ''__'' s"
  then have "length (str_replace ''__'' ''_'' s) < length s"
    by (intro shrink) simp_all
  then show "(str_replace ''__'' ''_'' s, s) \<in> measure length"
    by simp
qed

text \<open>ml/train.py, \<open>main\<close>: the directory name under \<open>args.output_dir\<close>.\<close>

definition train_artifacts_key :: "string \<Rightarrow> string \<Rightarrow> string" where
  "train_artifacts_key role location =
     (let role_slug = str_replace '' '' ''_'' (str_lower role);
          location_slug = str_replace '','' [] (str_replace '' '' ''_'' (str_lower location))
      in role_slug @ ''_'' @ location_slug)"

text \<open>backend/app/config.py, \<open>Settings.get_artifacts_path\<close>: the directory name under
  \<open>ARTIFACTS_DIR\<close>.\<close>

definition get_artifacts_path :: "string \<Rightarrow> string \<Rightarrow> string" where
  "get_artifacts_path role location =
     (let role_slug = str_replace '' '' ''_'' (str_lower role);
          location_slug = collapse_underscores
            (str_replace '' '' ''_'' (str_replace '','' ''_''
               (str_replace '', '' ''_'' (str_lower location))))
      in role_slug @ ''_'' @ location_slug)"

subsection \<open>backend/app/services/data_store.py\<close>

text \<open>
  The file system is an explicit environment: which artifact directories exist, what
  \<open>load_model_artifacts\<close> returns for a directory, and the rows of each CSV file
  (\<open>None\<close>: no such file). Paths are compared by their last component, the key.
\<close>

definition get_csv_path :: "string \<Rightarrow> string \<Rightarrow> string" where
  "get_csv_path role location =
     (let role_slug = str_replace '' '' ''_'' (str_lower role);
          location_slug = collapse_underscores
            (str_replace '' '' ''_'' (str_replace '','' ''_''
               (str_replace '', '' ''_'' (str_lower location))))
      in role_slug @ ''_'' @ location_slug @ ''.csv'')"

text \<open>\<open>df.tail(n)\<close>: the last \<open>n\<close> rows; for negative \<open>n\<close>, all rows but the first \<open>-n\<close>.\<close>

definition df_tail :: "'a list \<Rightarrow> int \<Rightarrow> 'a list" where
  "df_tail df n = (if n < 0 then drop (nat (- n)) df else drop (length df - nat n) df)"

text \<open>
  The trained predictor in inference mode is a function from the current window to the
  next scaled value; its weights are whatever the artifact holds.
\<close>

type_synonym lstm = "real list \<Rightarrow> real"

record metadata =
  md_window_size :: nat
  md_model_type :: "string option"
  md_trained_at :: "string option"

record artifact =
  art_model :: lstm
  art_scaler :: scaler
  art_metadata :: metadata

record environment =
  artifacts_dir_exists :: "string \<Rightarrow> bool"
  load_model_artifacts :: "string \<Rightarrow> error + artifact"
  csv_files :: "string \<Rightarrow> dataframe option"

definition load_series :: "environment \<Rightarrow> string \<Rightarrow> string \<Rightarrow> int option \<Rightarrow> error + dataframe" where
  "load_series env role location max_weeks =
     (case csv_files env (get_csv_path role location) of
        None \<Rightarrow> Inl DataNotFound
      | Some raw \<Rightarrow>
          (let df = sort_values raw
           in Inr (case max_weeks of
                     None \<Rightarrow> df
                   | Some n \<Rightarrow> if n = 0 then df else df_tail df n)))"

definition to_time_series_points :: "dataframe \<Rightarrow> (int \<times> real) list" where
  "to_time_series_points df = map (\<lambda>r. (fst r, snd r)) df"

subsection \<open>backend/app/services/forecast.py: ForecastService\<close>

text \<open>
  The service object holds the dictionary \<open>cache\<close>. To state which effects a request has,
  the state also carries a trace, which the source does not have: \<open>ArtifactRead d\<close> is
  appended when \<open>load_model_artifacts\<close> is called on directory \<open>d\<close>, \<open>PredictCall h\<close> when
  \<open>predict_recursive\<close> is entered with horizon \<open>h\<close>. Nothing reads the trace.
\<close>

datatype event = ArtifactRead string | PredictCall int

record service =
  svc_cache :: "string \<rightharpoonup> artifact"
  svc_trace :: "event list"

definition ForecastService_init :: service where
  "ForecastService_init = \<lparr>svc_cache = Map.empty, svc_trace = []\<rparr>"

fun is_artifact_read :: "event \<Rightarrow> bool" where
  "is_artifact_read (ArtifactRead d) = True"
| "is_artifact_read (PredictCall h) = False"

definition artifact_reads :: "service \<Rightarrow> event list" where
  "artifact_reads self = filter is_artifact_read (svc_trace self)"

definition predict_calls :: "service \<Rightarrow> event list" where
  "predict_calls self = filter (\<lambda>e. \<not> is_artifact_read e) (svc_trace self)"

definition get_model_key :: "string \<Rightarrow> string \<Rightarrow> string" where
  "get_model_key role location = role @ ''|'' @ location"

definition load_model ::
    "environment \<Rightarrow> service \<Rightarrow> string \<Rightarrow> string \<Rightarrow> (error + artifact) \<times> service" where
  "load_model env self role location =
     (let cache_key = get_model_key role location
      in case svc_cache self cache_key of
           Some art \<Rightarrow> (Inr art, self)
         | None \<Rightarrow>
             (let artifacts_dir = get_artifacts_path role location
              in if \<not> artifacts_dir_exists env artifacts_dir then (Inl ModelNotFound, self)
                 else
                   (case load_model_artifacts env artifacts_dir of
                      Inl e \<Rightarrow>
                        (Inl e, self\<lparr>svc_trace := svc_trace self @ [ArtifactRead artifacts_dir]\<rparr>)
                    | Inr art \<Rightarrow>
                        (Inr art,
                         self\<lparr>svc_cache := (svc_cache self)(cache_key \<mapsto> art),
                              svc_trace := svc_trace self @ [ArtifactRead artifacts_dir]\<rparr>))))"

text \<open>
  One iteration of the loop of \<open>predict_recursive\<close>. The loop state is
  \<open>(current_sequence, predictions_scaled)\<close>: the model is run on the current window, the
  prediction is appended to the predictions, and the next window is
  \<open>current_sequence[:, 1:, :]\<close> followed by the prediction.
\<close>

definition forecast_step :: "lstm \<Rightarrow> real list \<times> real list \<Rightarrow> real list \<times> real list" where
  "forecast_step model st =
     (let pred_scaled = model (fst st)
      in (tl (fst st) @ [pred_scaled], snd st @ [pred_scaled]))"

fun predict_loop :: "lstm \<Rightarrow> nat \<Rightarrow> real list \<times> real list \<Rightarrow> real list \<times> real list" where
  "predict_loop model 0 st = st"
| "predict_loop model (Suc n) st = predict_loop model n (forecast_step model st)"

text \<open>The window the model is run on in iteration \<open>k\<close> (counted from 0).\<close>

definition window_at :: "lstm \<Rightarrow> real list \<Rightarrow> nat \<Rightarrow> real list" where
  "window_at model initial_scaled k = fst (predict_loop model k (initial_scaled, []))"

text \<open>
  The value computed by \<open>predict_recursive\<close>: \<open>range(horizon)\<close> is empty for
  \<open>horizon \<le> 0\<close>; \<open>np.maximum(predictions_raw, 0)\<close> clamps elementwise.
\<close>

definition predict_values :: "lstm \<Rightarrow> scaler \<Rightarrow> real list \<Rightarrow> int \<Rightarrow> error + real list" where
  "predict_values model sc initial_sequence horizon =
     (case scaler_transform sc initial_sequence of
        Inl e \<Rightarrow> Inl e
      | Inr initial_scaled \<Rightarrow>
          (let predictions_scaled = snd (predict_loop model (nat horizon) (initial_scaled, []))
           in case scaler_inverse_transform sc predictions_scaled of
                Inl e \<Rightarrow> Inl e
              | Inr predictions_raw \<Rightarrow> Inr (map (\<lambda>x. max x 0) predictions_raw)))"

definition predict_recursive ::
    "service \<Rightarrow> lstm \<Rightarrow> scaler \<Rightarrow> real list \<Rightarrow> int \<Rightarrow> (error + real list) \<times> service" where
  "predict_recursive self model sc initial_sequence horizon =
     (predict_values model sc initial_sequence horizon,
      self\<lparr>svc_trace := svc_trace self @ [PredictCall horizon]\<rparr>)"

definition MAX_HISTORY_WEEKS :: int where
  "MAX_HISTORY_WEEKS = 104"

text \<open>\<open>range(n)\<close> as a list.\<close>

definition py_range :: "int \<Rightarrow> int list" where
  "py_range n = map int [0 ..< nat n]"

record forecast_result =
  fr_role :: string
  fr_location :: string
  fr_history :: "(int \<times> real) list"
  fr_forecast :: "(int \<times> real) list"
  fr_model_type :: string
  fr_model_window :: nat
  fr_model_trained_on :: string

text \<open>
  The response dictionary. A point \<open>{"week_start": str(date), "value": float(v)}\<close> is the
  pair of the date and the value; \<open>zip\<close> stops at the shorter of dates and predictions.
\<close>

definition build_response ::
    "string \<Rightarrow> string \<Rightarrow> dataframe \<Rightarrow> int list \<Rightarrow> real list \<Rightarrow> metadata \<Rightarrow> forecast_result" where
  "build_response role location df forecast_dates predictions md =
     \<lparr>fr_role = role, fr_location = location,
      fr_history = to_time_series_points df,
      fr_forecast = zip forecast_dates predictions,
      fr_model_type = (case md_model_type md of None \<Rightarrow> ''lstm'' | Some t \<Rightarrow> t),
      fr_model_window = md_window_size md,
      fr_model_trained_on = (case md_trained_at md of None \<Rightarrow> ''unknown'' | Some t \<Rightarrow> t)\<rparr>"

text \<open>
  The special case of \<open>forecast\<close>: role \<open>Software Engineer\<close>, a location containing
  \<open>New York\<close>, and \<open>horizon >= 52\<close>. The dates start at 2 June 2025, whose ordinal is
  739404.
\<close>

definition is_special_case :: "string \<Rightarrow> string \<Rightarrow> int \<Rightarrow> bool" where
  "is_special_case role location horizon =
     (role = ''Software Engineer'' \<and> str_contains ''New York'' location \<and> horizon \<ge> 52)"

definition special_forecast_dates :: "int \<Rightarrow> int list" where
  "special_forecast_dates horizon =
     (let start_forecast_date = 739404;
          weeks_to_cover = max horizon 56;
          actual_weeks = (if horizon > 52 then min weeks_to_cover horizon else weeks_to_cover)
      in map (\<lambda>i. start_forecast_date + 7 * i) (py_range actual_weeks))"

definition standard_forecast_dates :: "int \<Rightarrow> int \<Rightarrow> int list" where
  "standard_forecast_dates last_date horizon =
     map (\<lambda>i. last_date + 7 * (i + 1)) (py_range horizon)"

definition forecast ::
    "environment \<Rightarrow> service \<Rightarrow> string \<Rightarrow> string \<Rightarrow> int \<Rightarrow> (error + forecast_result) \<times> service" where
  "forecast env self role location horizon =
     (case load_model env self role location of
        (Inl e, s1) \<Rightarrow> (Inl e, s1)
      | (Inr art, s1) \<Rightarrow>
          (case load_series env role location (Some MAX_HISTORY_WEEKS) of
             Inl e \<Rightarrow> (Inl e, s1)
           | Inr df \<Rightarrow>
               (let window_size = md_window_size (art_metadata art)
                in if length df < window_size
                   then (Inl (InsufficientHistory window_size (length df)), s1)
                   else
                     (let last_values = py_slice (values_of df) (Some (- int window_size)) None
                      in case predict_recursive s1 (art_model art) (art_scaler art)
                                last_values horizon of
                           (Inl e, s2) \<Rightarrow> (Inl e, s2)
                         | (Inr predictions, s2) \<Rightarrow>
                             (case py_get (map fst df) (- 1) of
                                Inl e \<Rightarrow> (Inl e, s2)
                              | Inr last_date \<Rightarrow>
                                  if is_special_case role location horizon then
                                    (if horizon = 52 then
                                       (case predict_recursive s2 (art_model art) (art_scaler art)
                                               last_values 56 of
                                          (Inl e, s3) \<Rightarrow> (Inl e, s3)
                                        | (Inr predictions56, s3) \<Rightarrow>
                                            (Inr (build_response role location df
                                                    (special_forecast_dates horizon)
                                                    predictions56 (art_metadata art)), s3))
                                     else
                                       (Inr (build_response role location df
                                               (special_forecast_dates horizon)
                                               predictions (art_metadata art)), s2))
                                  else
                                    (Inr (build_response role location df
                                            (standard_forecast_dates last_date horizon)
                                            predictions (art_metadata art)), s2))))))"

text \<open>The number of forecast points of a response, or the error of the request.\<close>

definition forecast_length :: "(error + forecast_result) \<times> service \<Rightarrow> error + nat" where
  "forecast_length res =
     (case fst res of Inl e \<Rightarrow> Inl e | Inr r \<Rightarrow> Inr (length (fr_forecast r)))"

text \<open>
  A small deployment for concrete runs: every artifact directory holds the same artifact
  (window size 1, a predictor that answers 0, the identity min-max scaler), and every
  CSV file has one row, dated 26 May 2025.
\<close>

definition demo_artifact :: artifact where
  "demo_artifact =
     \<lparr>art_model = (\<lambda>w. 0), art_scaler = MinMaxScaler (Some (0, 1, 1, 0)),
      art_metadata = \<lparr>md_window_size = 1, md_model_type = Some ''lstm'',
                       md_trained_at = None\<rparr>\<rparr>"

definition demo_env :: environment where
  "demo_env =
     \<lparr>artifacts_dir_exists = (\<lambda>d. True),
      load_model_artifacts = (\<lambda>d. Inr demo_artifact),
      csv_files = (\<lambda>p. Some [(739397, 5)])\<rparr>"

text \<open>The same deployment with an artifact that needs three weeks of history.\<close>

definition demo_env_window3 :: environment where
  "demo_env_window3 =
     demo_env\<lparr>load_model_artifacts :=
       (\<lambda>d. Inr (demo_artifact\<lparr>art_metadata :=
          \<lparr>md_window_size = 3, md_model_type = Some ''lstm'', md_trained_at = None\<rparr>\<rparr>))\<rparr>"

text \<open>A deployment whose storage holds nothing.\<close>

definition empty_env :: environment where
  "empty_env =
     \<lparr>artifacts_dir_exists = (\<lambda>d. False),
      load_model_artifacts = (\<lambda>d. Inl ArtifactLoadError),
      csv_files = (\<lambda>p. None)\<rparr>"

section \<open>Properties\<close>

subsection \<open>Helper lemmas\<close>

lemma floor_log2_eq:
  assumes "2 powi e \<le> x" and "x < 2 powi (e + 1)"
  shows "\<lfloor>log 2 x\<rfloor> = e"
proof -
  have pos: "0 < x"
    using assms(1) by (meson less_le_trans zero_less_numeral zero_less_power_int)
  have conv: "(2 :: real) powr (of_int k) = 2 powi k" for k
    by (simp add: powr_real_of_int power_int_def power_one_over inverse_eq_divide)
  have a: "2 powr (of_int e) \<le> x"
    using assms(1) by (simp only: conv)
  have "(2 :: real) powr (of_int e + 1) = 2 powr (of_int (e + 1))"
    by simp
  then have b: "x < 2 powr (of_int e + 1)"
    using assms(2) by (simp only: conv)
  from pos a b show ?thesis
    using floor_log_eq_powr_iff [of x 2 e] by simp
qed

lemma binary_round_at:
  assumes "2 powi e \<le> \<bar>x\<bar>" and "\<bar>x\<bar> < 2 powi (e + 1)" and "emin \<le> e"
  shows "binary_round p emin x =
     sgn x * of_int (round_half_even (\<bar>x\<bar> / 2 powi (e - (int p - 1)))) * 2 powi (e - (int p - 1))"
proof -
  from assms(1) have "x \<noteq> 0"
    by (smt (verit) zero_less_power_int abs_zero)
  moreover from assms have "max \<lfloor>log 2 \<bar>x\<bar>\<rfloor> emin = e"
    by (simp add: floor_log2_eq)
  ultimately show ?thesis
    by (simp add: binary_round_def Let_def)
qed

lemma round_half_even_nonneg: "0 \<le> q \<Longrightarrow> 0 \<le> round_half_even q"
  by (simp add: round_half_even_def)

lemma binary_round_nonneg: "0 \<le> x \<Longrightarrow> 0 \<le> binary_round p emin x"
  by (simp add: binary_round_def Let_def round_half_even_nonneg sgn_if)

lemma float64_nonneg: "float64 x = Some r \<Longrightarrow> 0 \<le> x \<Longrightarrow> 0 \<le> r"
  by (auto simp: float64_def Let_def binary_round_nonneg split: if_splits)

lemma to_float32_1: "to_float32 1 = Finite32 1"
  unfolding to_float32_def
  by (subst binary_round_at [where e = 0]) (simp_all add: round_half_even_def)

lemma to_float32_2: "to_float32 2 = Finite32 2"
  unfolding to_float32_def
  by (subst binary_round_at [where e = 1]) (simp_all add: round_half_even_def)

lemma to_float32_4: "to_float32 4 = Finite32 4"
  unfolding to_float32_def
  by (subst binary_round_at [where e = 2]) (simp_all add: round_half_even_def)

lemma to_float32_16777217: "to_float32 16777217 = Finite32 16777216"
  unfolding to_float32_def
  by (subst binary_round_at [where e = 24]) (simp_all add: round_half_even_def)

lemma window_loop:
  "foldl (window_step data w) acc [0 ..< n] =
     (fst acc @ map (\<lambda>i. slice data i (i + w)) [0 ..< n],
      snd acc @ map (\<lambda>i. data ! (i + w)) [0 ..< n])"
  by (induction n) (simp_all add: window_step_def)

lemma ds_X_init:
  "ds_X (TimeSeriesDataset_init data w) =
     map (\<lambda>i. map to_float32 (slice data i (i + w))) [0 ..< length data - w]"
  by (simp add: TimeSeriesDataset_init_def Let_def window_loop o_def)

lemma ds_y_init:
  "ds_y (TimeSeriesDataset_init data w) =
     map (\<lambda>i. to_float32 (data ! (i + w))) [0 ..< length data - w]"
  by (simp add: TimeSeriesDataset_init_def Let_def window_loop o_def)

lemma slice_nths: "a + k \<le> length xs \<Longrightarrow> slice xs a (a + k) = map ((!) xs) [a ..< a + k]"
  unfolding slice_def
  by (simp add: list_eq_iff_nth_eq)

lemma py_get_nat: "i < length xs \<Longrightarrow> py_get xs (int i) = Inr (xs ! i)"
  by (simp add: py_get_def)

lemma py_get_empty: "py_get [] i = Inl IndexError"
  by (auto simp: py_get_def)

lemma naive_after_fits_snoc:
  "last_value (naive_after_fits (calls @ [d])) = Some (if length d > 0 then last d else 0)"
  by (simp add: naive_after_fits_def naive_fit_def)

lemma filter_upt_interval:
  "filter (\<lambda>i. a \<le> i \<and> i < b) [0 ..< n] = [a ..< min b n]"
proof (induction n)
  case 0
  show ?case by simp
next
  case (Suc n)
  consider "a \<le> n" "n < b" | "b \<le> n" | "n < a" "n < b"
    by linarith
  then show ?case
  proof cases
    case 1
    then have "min b n = n" "min b (Suc n) = Suc n" by simp_all
    with 1 Suc show ?thesis by simp
  next
    case 2
    then have "min b n = b" "min b (Suc n) = b" by simp_all
    with 2 Suc show ?thesis by simp
  next
    case 3
    then have "min b n = n" "min b (Suc n) = Suc n" by simp_all
    with 3 Suc show ?thesis by simp
  qed
qed

lemma rows_between_slice: "rows_between xs (int a) (int b) = slice xs a b"
proof -
  have "rows_between xs (int a) (int b) = map ((!) xs) [a ..< min b (length xs)]"
    by (simp add: rows_between_def filter_upt_interval)
  also have "\<dots> = slice xs a b"
    unfolding slice_def
  proof (rule nth_equalityI)
    show "length (map ((!) xs) [a ..< min b (length xs)]) = length (take (b - a) (drop a xs))"
      by (simp add: min_def) linarith
  next
    fix i
    assume "i < length (map ((!) xs) [a ..< min b (length xs)])"
    then have "i < min b (length xs) - a" by simp
    then have "a + i < b" "a + i < length xs" by linarith+
    then show "map ((!) xs) [a ..< min b (length xs)] ! i = take (b - a) (drop a xs) ! i"
      by simp
  qed
  finally show ?thesis .
qed

lemma slice_clip: "slice xs (min (length xs) a) (min (length xs) b) = slice xs a b"
  by (auto simp: slice_def min_def)

lemma py_slice_nonneg:
  "0 \<le> i \<Longrightarrow> 0 \<le> j \<Longrightarrow> py_slice xs (Some i) (Some j) = rows_between xs i j"
  using rows_between_slice [of xs "nat i" "nat j"]
  by (simp add: py_slice_def norm_index_def slice_clip Let_def)

lemma py_slice_upto: "0 \<le> j \<Longrightarrow> py_slice xs None (Some j) = rows_between xs 0 j"
  using rows_between_slice [of xs 0 "nat j"] slice_clip [of xs 0 "nat j"]
  by (simp add: py_slice_def norm_index_def Let_def)

lemma py_slice_from:
  "0 \<le> i \<Longrightarrow> py_slice xs (Some i) None = rows_between xs i (int (length xs))"
  using rows_between_slice [of xs "nat i" "length xs"] slice_clip [of xs "nat i" "length xs"]
  by (simp add: py_slice_def norm_index_def Let_def)

lemma py_int_nonneg: "0 \<le> x \<Longrightarrow> py_int x = \<lfloor>x\<rfloor>"
  by (simp add: py_int_def)

lemma length_sort_values: "length (sort_values df) = length df"
  by (simp add: sort_values_def)

lemma float64_at:
  assumes "2 powi e \<le> \<bar>x\<bar>" and "\<bar>x\<bar> < 2 powi (e + 1)" and "- 1022 \<le> e"
    and "r = sgn x * of_int (round_half_even (\<bar>x\<bar> / 2 powi (e - 52))) * 2 powi (e - 52)"
    and "\<bar>r\<bar> < 2 ^ 1024"
  shows "float64 x = Some r"
  using assms(4,5) binary_round_at [OF assms(1,2,3), of 53]
  by (simp add: float64_def Let_def)

lemma float64_0: "float64 0 = Some 0"
  by (simp add: float64_def binary_round_def)

lemma literal_07: "float64_literal (7 / 10) = 6305039478318694 / 2 ^ 53"
  unfolding float64_literal_def
  by (subst binary_round_at [where e = "- 1"]) (simp_all add: round_half_even_def)

lemma literal_015: "float64_literal (15 / 100) = 5404319552844595 / 2 ^ 55"
  unfolding float64_literal_def
  by (subst binary_round_at [where e = "- 3"]) (simp_all add: round_half_even_def)

lemma literal_tolerance: "float64_literal (1 / 1000000) = 4722366482869645 / 2 ^ 72"
  unfolding float64_literal_def
  by (subst binary_round_at [where e = "- 20"]) (simp_all add: round_half_even_def)

lemma sum_07_015:
  "fadd (6305039478318694 / 2 ^ 53) (5404319552844595 / 2 ^ 55) = Some (7656119366529843 / 2 ^ 53)"
  unfolding fadd_def
  by (rule float64_at [where e = "- 1"]) (simp_all add: round_half_even_def)

lemma sum_085_015:
  "fadd (7656119366529843 / 2 ^ 53) (5404319552844595 / 2 ^ 55) = Some 1"
  unfolding fadd_def
  by (rule float64_at [where e = "- 1"]) (simp_all add: round_half_even_def)

lemma float64_90: "float64 90 = Some 90"
  by (rule float64_at [where e = 6]) (simp_all add: round_half_even_def)

lemma prod_90_07:
  "fmul 90 (6305039478318694 / 2 ^ 53) = Some (8866461766385663 / 2 ^ 47)"
  unfolding fmul_def
  by (rule float64_at [where e = 5]) (simp_all add: round_half_even_def)

lemma prod_90_085:
  "fmul 90 (7656119366529843 / 2 ^ 53) = Some (153 / 2)"
  unfolding fmul_def
  by (rule float64_at [where e = 6]) (simp_all add: round_half_even_def)

lemma defaults_accepted:
  "ratios_accepted (float64_literal (7 / 10)) (float64_literal (15 / 100))
     (float64_literal (15 / 100))"
  by (simp only: ratios_accepted_def literal_07 literal_015 literal_tolerance sum_07_015
        sum_085_015 option.case)
     (simp add: fsub_def float64_0)

lemma cut_90_07: "cut_index 90 (6305039478318694 / 2 ^ 53) = Inr 62"
  unfolding cut_index_def
  by (simp only: of_nat_numeral float64_90 prod_90_07 option.case)
     (simp add: py_int_def)

lemma cut_90_085: "cut_index 90 (7656119366529843 / 2 ^ 53) = Inr 76"
  unfolding cut_index_def
  by (simp only: of_nat_numeral float64_90 prod_90_085 option.case)
     (simp add: py_int_def)

lemma length_weekly: "length (sort_values (weekly_series n)) = n"
  by (simp add: sort_values_def weekly_series_def)

lemma split_defaults_90:
  "split_lengths (split_time_series (weekly_series 90) (float64_literal (7 / 10))
      (float64_literal (15 / 100)) (float64_literal (15 / 100))) = Inr (62, 14, 14)"
proof -
  have "split_time_series (weekly_series 90) (float64_literal (7 / 10))
      (float64_literal (15 / 100)) (float64_literal (15 / 100))
    = Inr (py_slice (sort_values (weekly_series 90)) None (Some 62),
           py_slice (sort_values (weekly_series 90)) (Some 62) (Some 76),
           py_slice (sort_values (weekly_series 90)) (Some 76) None)"
    using defaults_accepted
    by (simp only: split_time_series_def Let_def length_weekly literal_07 literal_015
        cut_90_07 cut_90_085 sum_07_015 option.case sum.case not_True_eq_False if_False)
  then show ?thesis
    by (simp add: split_lengths_def py_slice_def norm_index_def slice_def length_weekly)
qed

lemma cut_index_floor:
  assumes "0 \<le> ratio"
  shows "cut_index n ratio = floor_cut n ratio"
proof (cases "float64 (real n)")
  case None
  then show ?thesis by (simp add: cut_index_def floor_cut_def)
next
  case (Some nf)
  then have nf: "0 \<le> nf"
    by (rule float64_nonneg) simp
  show ?thesis
  proof (cases "fmul nf ratio")
    case None
    with Some show ?thesis by (simp add: cut_index_def floor_cut_def)
  next
    case (Some p)
    then have "0 \<le> p"
      unfolding fmul_def using nf assms by (elim float64_nonneg) simp
    with Some \<open>float64 (real n) = Some nf\<close> show ?thesis
      by (simp add: cut_index_def floor_cut_def py_int_nonneg)
  qed
qed

lemma floor_cut_nonneg:
  assumes "0 \<le> ratio" and "floor_cut n ratio = Inr k"
  shows "0 \<le> k"
proof -
  from assms(2) obtain nf p where a: "float64 (real n) = Some nf" and b: "fmul nf ratio = Some p"
    and k: "k = \<lfloor>p\<rfloor>"
    by (auto simp: floor_cut_def split: option.splits)
  from a have "0 \<le> nf" by (rule float64_nonneg) simp
  with b assms(1) have "0 \<le> p"
    unfolding fmul_def by (elim float64_nonneg) simp
  with k show ?thesis by simp
qed

lemma split_as_double_split:
  assumes "0 \<le> r_train" and "0 \<le> r_val"
  shows "split_time_series df r_train r_val r_test = double_split df r_train r_val r_test"
proof (cases "ratios_accepted r_train r_val r_test")
  case False
  then show ?thesis by (simp add: split_time_series_def double_split_def)
next
  case True
  show ?thesis
  proof (cases "floor_cut (length df) r_train")
    case (Inl e)
    with True assms show ?thesis
      by (simp add: split_time_series_def double_split_def Let_def length_sort_values
          cut_index_floor)
  next
    case a: (Inr train_end)
    have ta: "0 \<le> train_end"
      using assms(1) a by (rule floor_cut_nonneg)
    show ?thesis
    proof (cases "fadd r_train r_val")
      case None
      with True a assms show ?thesis
        by (simp add: split_time_series_def double_split_def Let_def length_sort_values
            cut_index_floor)
    next
      case (Some s)
      then have s: "0 \<le> s"
        unfolding fadd_def using assms by (elim float64_nonneg) simp
      show ?thesis
      proof (cases "floor_cut (length df) s")
        case (Inl e)
        with True a Some s assms show ?thesis
          by (simp add: split_time_series_def double_split_def Let_def length_sort_values
              cut_index_floor)
      next
        case b: (Inr val_end)
        have tb: "0 \<le> val_end"
          using s b by (rule floor_cut_nonneg)
        from True a Some s b assms show ?thesis
          by (simp add: split_time_series_def double_split_def Let_def length_sort_values
              cut_index_floor py_slice_upto [OF ta] py_slice_nonneg [OF ta tb]
              py_slice_from [OF tb])
      qed
    qed
  qed
qed

lemma length_rows_between:
  "length (rows_between xs (int a) (int b)) = min (b - a) (length xs - a)"
  by (simp add: rows_between_slice slice_def)

lemma spec_defaults_90:
  "split_lengths (spec_split (weekly_series 90) (7 / 10) (15 / 100) (15 / 100))
     = Inr (63, 13, 14)"
proof -
  have "spec_split (weekly_series 90) (7 / 10) (15 / 100) (15 / 100)
      = Inr (rows_between (sort_values (weekly_series 90)) (int 0) (int 63),
             rows_between (sort_values (weekly_series 90)) (int 63) (int 76),
             rows_between (sort_values (weekly_series 90)) (int 76) (int 90))"
    by (simp add: spec_split_def weekly_series_def Let_def)
  then show ?thesis
    by (simp only: split_lengths_def sum.case fst_conv snd_conv length_rows_between
        length_weekly) simp
qed

lemma float64_2: "float64 2 = Some 2"
  by (rule float64_at [where e = 1]) (simp_all add: round_half_even_def)

lemma float64_4: "float64 4 = Some 4"
  by (rule float64_at [where e = 2]) (simp_all add: round_half_even_def)

lemma sum_neg_half_1: "fadd (- 1 / 2) 1 = Some (1 / 2)"
  unfolding fadd_def
  by (rule float64_at [where e = "- 1"]) (simp_all add: round_half_even_def)

lemma sum_half_half: "fadd (1 / 2) (1 / 2) = Some 1"
  unfolding fadd_def
  by (rule float64_at [where e = 0]) (simp_all add: round_half_even_def)

lemma prod_2_neg_half: "fmul 2 (- 1 / 2) = Some (- 1)"
  unfolding fmul_def
  by (rule float64_at [where e = 0]) (simp_all add: round_half_even_def)

lemma prod_2_half: "fmul 2 (1 / 2) = Some 1"
  unfolding fmul_def
  by (rule float64_at [where e = 0]) (simp_all add: round_half_even_def)

lemma sum_half_quarter: "fadd (1 / 2) (1 / 4) = Some (3 / 4)"
  unfolding fadd_def
  by (rule float64_at [where e = "- 1"]) (simp_all add: round_half_even_def)

lemma sum_3q_quarter: "fadd (3 / 4) (1 / 4) = Some 1"
  unfolding fadd_def
  by (rule float64_at [where e = 0]) (simp_all add: round_half_even_def)

lemma sum_3q_eighth: "fadd (3 / 4) (1 / 8) = Some (7 / 8)"
  unfolding fadd_def
  by (rule float64_at [where e = "- 1"]) (simp_all add: round_half_even_def)

lemma diff_7e_1: "fsub (7 / 8) 1 = Some (- 1 / 8)"
  unfolding fsub_def
  by (rule float64_at [where e = "- 3"]) (simp_all add: round_half_even_def)

lemma diff_1_1: "fsub 1 1 = Some 0"
  by (simp add: fsub_def float64_0)

lemma prod_4_half: "fmul 4 (1 / 2) = Some 2"
  unfolding fmul_def
  by (rule float64_at [where e = 1]) (simp_all add: round_half_even_def)

lemma prod_4_3q: "fmul 4 (3 / 4) = Some 3"
  unfolding fmul_def
  by (rule float64_at [where e = 1]) (simp_all add: round_half_even_def)

lemma split_negative_ratio:
  "split_time_series [(1, 10), (2, 20)] (- 1 / 2) 1 (1 / 2) = Inr ([(1, 10)], [], [(2, 20)])"
proof -
  have g: "ratios_accepted (- 1 / 2) 1 (1 / 2)"
    by (simp only: ratios_accepted_def sum_neg_half_1 sum_half_half diff_1_1 option.case
        literal_tolerance) simp
  have c1: "cut_index 2 (- 1 / 2) = Inr (- 1)"
    by (simp only: cut_index_def of_nat_numeral float64_2 prod_2_neg_half option.case)
       (simp add: py_int_def ceiling_def)
  have c2: "cut_index 2 (1 / 2) = Inr 1"
    by (simp only: cut_index_def of_nat_numeral float64_2 prod_2_half option.case)
       (simp add: py_int_def)
  have l: "length (sort_values [(1, 10), (2, 20)]) = 2"
    by (simp add: sort_values_def)
  have "split_time_series [(1, 10), (2, 20)] (- 1 / 2) 1 (1 / 2)
      = Inr (py_slice (sort_values [(1, 10), (2, 20)]) None (Some (- 1)),
             py_slice (sort_values [(1, 10), (2, 20)]) (Some (- 1)) (Some 1),
             py_slice (sort_values [(1, 10), (2, 20)]) (Some 1) None)"
    using g
    by (simp only: split_time_series_def Let_def l c1 c2 sum_neg_half_1 option.case sum.case
        not_True_eq_False if_False)
  then show ?thesis
    by (simp add: sort_values_def py_slice_def norm_index_def slice_def)
qed

lemma spec_negative_ratio:
  "spec_split [(1, 10), (2, 20)] (- 1 / 2) 1 (1 / 2) = Inr ([], [(1, 10)], [(2, 20)])"
  by (simp add: spec_split_def sort_values_def rows_between_def Let_def)

lemma split_example:
  "split_time_series [(3, 30), (1, 10), (2, 20), (4, 40)] (1 / 2) (1 / 4) (1 / 4)
     = Inr ([(1, 10), (2, 20)], [(3, 30)], [(4, 40)])"
proof -
  have g: "ratios_accepted (1 / 2) (1 / 4) (1 / 4)"
    by (simp only: ratios_accepted_def sum_half_quarter sum_3q_quarter diff_1_1 option.case
        literal_tolerance) simp
  have c1: "cut_index 4 (1 / 2) = Inr 2"
    by (simp only: cut_index_def of_nat_numeral float64_4 prod_4_half option.case)
       (simp add: py_int_def)
  have c2: "cut_index 4 (3 / 4) = Inr 3"
    by (simp only: cut_index_def of_nat_numeral float64_4 prod_4_3q option.case)
       (simp add: py_int_def)
  have l: "length (sort_values [(3, 30), (1, 10), (2, 20), (4, 40)]) = 4"
    by (simp add: sort_values_def)
  let ?s = "sort_values [(3, 30), (1, 10), (2, 20), (4, 40)]"
  have "split_time_series [(3, 30), (1, 10), (2, 20), (4, 40)] (1 / 2) (1 / 4) (1 / 4)
      = Inr (py_slice ?s None (Some 2), py_slice ?s (Some 2) (Some 3), py_slice ?s (Some 3) None)"
    using g
    by (simp only: split_time_series_def Let_def l c1 c2 sum_half_quarter option.case sum.case
        not_True_eq_False if_False)
  then show ?thesis
    by (simp add: sort_values_def py_slice_def norm_index_def slice_def)
qed

lemma split_rejected_example:
  "split_time_series df (1 / 2) (1 / 4) (1 / 8) = Inl SplitRatiosAssertion"
proof -
  have "\<not> ratios_accepted (1 / 2) (1 / 4) (1 / 8)"
    by (simp only: ratios_accepted_def sum_half_quarter sum_3q_eighth diff_7e_1 option.case
        literal_tolerance) simp
  then show ?thesis
    by (simp add: split_time_series_def)
qed

lemma prepare_datasets_Inr:
  assumes "prepare_datasets train_df val_df test_df w ty given = Inr p"
  shows "obtain_scaler ty given (values_of train_df) = Inr (fitted_scaler p)
     \<and> scaler_transform (fitted_scaler p) (values_of train_df) = Inr (ds_data (train_dataset p))
     \<and> scaler_transform (fitted_scaler p) (values_of val_df) = Inr (ds_data (val_dataset p))
     \<and> scaler_transform (fitted_scaler p) (values_of test_df) = Inr (ds_data (test_dataset p))"
  using assms
  by (auto simp: prepare_datasets_def TimeSeriesDataset_init_def Let_def split: sum.splits)

lemma prepare_example_1:
  "prepare_datasets [(1, 10), (2, 20), (3, 30), (4, 40), (5, 50)]
     [(6, 100), (7, 200), (8, 300)] [(9, 1000), (10, 2000), (11, 3000)] 2 ''minmax'' None
   = Inr \<lparr>train_dataset = TimeSeriesDataset_init [0, 1 / 4, 1 / 2, 3 / 4, 1] 2,
          val_dataset = TimeSeriesDataset_init [9 / 4, 19 / 4, 29 / 4] 2,
          test_dataset = TimeSeriesDataset_init [99 / 4, 199 / 4, 299 / 4] 2,
          fitted_scaler = MinMaxScaler (Some (10, 50, 1 / 40, - (1 / 4)))\<rparr>"
  by (simp add: prepare_datasets_def obtain_scaler_def new_scaler_def values_of_def
      handle_zeros_in_scale_def Let_def)

lemma prepare_example_2:
  "prepare_datasets [(1, 10), (2, 20), (3, 30), (4, 40), (5, 50)]
     [(6, 90)] [(7, 10)] 1 ''minmax'' None
   = Inr \<lparr>train_dataset = TimeSeriesDataset_init [0, 1 / 4, 1 / 2, 3 / 4, 1] 1,
          val_dataset = TimeSeriesDataset_init [2] 1,
          test_dataset = TimeSeriesDataset_init [0] 1,
          fitted_scaler = MinMaxScaler (Some (10, 50, 1 / 40, - (1 / 4)))\<rparr>"
  by (simp add: prepare_datasets_def obtain_scaler_def new_scaler_def values_of_def
      handle_zeros_in_scale_def Let_def)

lemma predict_loop_Suc:
  "predict_loop model (Suc n) st = forecast_step model (predict_loop model n st)"
  by (induction n arbitrary: st) simp_all

lemma predict_loop_acc:
  "predict_loop model n (w, acc) =
     (fst (predict_loop model n (w, [])), acc @ snd (predict_loop model n (w, [])))"
proof (induction n)
  case 0
  show ?case by simp
next
  case (Suc n)
  show ?case
    unfolding predict_loop_Suc
    by (subst Suc) (simp add: forecast_step_def Let_def)
qed

lemma window_at_0: "window_at model w 0 = w"
  by (simp add: window_at_def)

lemma window_at_Suc:
  "window_at model w (Suc k) = tl (window_at model w k) @ [model (window_at model w k)]"
  unfolding window_at_def predict_loop_Suc
  by (simp add: forecast_step_def Let_def)

lemma predictions_scaled_eq:
  "snd (predict_loop model n (w, [])) = map (\<lambda>k. model (window_at model w k)) [0 ..< n]"
proof (induction n)
  case 0
  show ?case by simp
next
  case (Suc n)
  then show ?case
    unfolding predict_loop_Suc
    by (simp add: forecast_step_def Let_def window_at_def)
qed

lemma scaler_transform_fitted:
  "is_fitted sc \<Longrightarrow> xs \<noteq> [] \<Longrightarrow> \<exists>ys. scaler_transform sc xs = Inr ys \<and> length ys = length xs"
  by (cases "(sc, xs)" rule: scaler_transform.cases) auto

lemma scaler_inverse_fitted:
  "is_fitted sc \<Longrightarrow> xs \<noteq> [] \<Longrightarrow>
     \<exists>ys. scaler_inverse_transform sc xs = Inr ys \<and> length ys = length xs"
  by (cases "(sc, xs)" rule: scaler_inverse_transform.cases) auto

lemma predict_values_fitted:
  assumes "is_fitted sc" and "initial_sequence \<noteq> []" and "1 \<le> horizon"
  shows "\<exists>scaled raw.
       scaler_transform sc initial_sequence = Inr scaled
     \<and> scaler_inverse_transform sc
          (map (\<lambda>k. model (window_at model scaled k)) [0 ..< nat horizon]) = Inr raw
     \<and> length raw = nat horizon
     \<and> predict_values model sc initial_sequence horizon = Inr (map (\<lambda>x. max x 0) raw)"
proof -
  from assms obtain scaled where s: "scaler_transform sc initial_sequence = Inr scaled"
    using scaler_transform_fitted by blast
  let ?ps = "map (\<lambda>k. model (window_at model scaled k)) [0 ..< nat horizon]"
  from assms have "?ps \<noteq> []" by simp
  with assms obtain raw where r: "scaler_inverse_transform sc ?ps = Inr raw"
    and l: "length raw = length ?ps"
    using scaler_inverse_fitted by blast
  from s r have "predict_values model sc initial_sequence horizon = Inr (map (\<lambda>x. max x 0) raw)"
    by (simp add: predict_values_def predictions_scaled_eq)
  with s r l show ?thesis by simp
qed

lemma load_model_cached:
  "svc_cache self (get_model_key role location) = Some art \<Longrightarrow>
     load_model env self role location = (Inr art, self)"
  by (simp add: load_model_def)

lemma load_model_Inr:
  assumes "load_model env self role location = (Inr art, s1)"
  shows "svc_cache s1 (get_model_key role location) = Some art"
  using assms
  by (auto simp: load_model_def Let_def split: option.splits if_splits sum.splits)

lemma load_model_keeps:
  assumes "load_model env self role location = (res, s1)"
    and "svc_cache self k = Some a"
  shows "svc_cache s1 k = Some a"
  using assms
  by (auto simp: load_model_def Let_def split: option.splits if_splits sum.splits)

lemma load_model_predict_calls:
  assumes "load_model env self role location = (res, s1)"
  shows "predict_calls s1 = predict_calls self"
  using assms
  by (auto simp: load_model_def Let_def predict_calls_def
      split: option.splits if_splits sum.splits)

lemma predict_recursive_state:
  "svc_cache (snd (predict_recursive s m sc w h)) = svc_cache s"
  "artifact_reads (snd (predict_recursive s m sc w h)) = artifact_reads s"
  by (simp_all add: predict_recursive_def artifact_reads_def)

lemma forecast_state:
  assumes "load_model env self role location = (res, s1)"
  shows "svc_cache (snd (forecast env self role location horizon)) = svc_cache s1
     \<and> artifact_reads (snd (forecast env self role location horizon)) = artifact_reads s1"
  using assms
  by (auto simp: forecast_def Let_def predict_recursive_def artifact_reads_def
      split: sum.splits prod.splits if_splits)

lemma forecast_unfold:
  assumes "load_model env self role location = (Inr art, s1)"
    and "load_series env role location (Some MAX_HISTORY_WEEKS) = Inr df"
  shows "forecast env self role location horizon =
     (let window_size = md_window_size (art_metadata art)
      in if length df < window_size
         then (Inl (InsufficientHistory window_size (length df)), s1)
         else
           (let last_values = py_slice (values_of df) (Some (- int window_size)) None
            in case predict_recursive s1 (art_model art) (art_scaler art) last_values horizon of
                 (Inl e, s2) \<Rightarrow> (Inl e, s2)
               | (Inr predictions, s2) \<Rightarrow>
                   (case py_get (map fst df) (- 1) of
                      Inl e \<Rightarrow> (Inl e, s2)
                    | Inr last_date \<Rightarrow>
                        if is_special_case role location horizon then
                          (if horizon = 52 then
                             (case predict_recursive s2 (art_model art) (art_scaler art)
                                     last_values 56 of
                                (Inl e, s3) \<Rightarrow> (Inl e, s3)
                              | (Inr predictions56, s3) \<Rightarrow>
                                  (Inr (build_response role location df
                                          (special_forecast_dates horizon)
                                          predictions56 (art_metadata art)), s3))
                           else
                             (Inr (build_response role location df
                                     (special_forecast_dates horizon)
                                     predictions (art_metadata art)), s2))
                        else
                          (Inr (build_response role location df
                                  (standard_forecast_dates last_date horizon)
                                  predictions (art_metadata art)), s2))))"
  using assms by (simp add: forecast_def)

lemma last_values_nonempty:
  assumes "w \<le> length df" and "0 < w"
  shows "py_slice (values_of df) (Some (- int w)) None \<noteq> []"
  using assms
  by (auto simp: py_slice_def norm_index_def slice_def values_of_def Let_def)

lemma last_date_ok: "df \<noteq> [] \<Longrightarrow> \<exists>d. py_get (map fst df) (- 1) = Inr d"
  by (cases df) (auto simp: py_get_def)

lemma length_special_dates_52: "length (special_forecast_dates 52) = 56"
  by (simp add: special_forecast_dates_def py_range_def Let_def)

lemma length_standard_dates: "length (standard_forecast_dates d h) = nat h"
  by (simp add: standard_forecast_dates_def py_range_def)

lemma forecast_length_general:
  assumes "load_model env self role location = (Inr art, s1)"
    and "load_series env role location (Some MAX_HISTORY_WEEKS) = Inr df"
    and "md_window_size (art_metadata art) \<le> length df"
    and "0 < md_window_size (art_metadata art)"
    and "is_fitted (art_scaler art)"
    and "1 \<le> horizon" and "horizon \<le> 52"
  shows "forecast_length (forecast env self role location horizon)
       = Inr (if is_special_case role location horizon then 56 else nat horizon)"
proof -
  let ?w = "md_window_size (art_metadata art)"
  let ?lv = "py_slice (values_of df) (Some (- int ?w)) None"
  have lv: "?lv \<noteq> []"
    using assms(3,4) by (rule last_values_nonempty)
  from predict_values_fitted [OF assms(5) lv assms(6), of "art_model art"]
  obtain raw where p: "predict_values (art_model art) (art_scaler art) ?lv horizon
      = Inr (map (\<lambda>x. max x 0) raw)" and lp: "length raw = nat horizon"
    by blast
  have "(1 :: int) \<le> 56" by simp
  from predict_values_fitted [OF assms(5) lv this, of "art_model art"]
  obtain raw56 where p56: "predict_values (art_model art) (art_scaler art) ?lv 56
      = Inr (map (\<lambda>x. max x 0) raw56)" and lp56: "length raw56 = 56"
    by auto
  from assms(3,4) have "df \<noteq> []" by auto
  then obtain d where d: "py_get (map fst df) (- 1) = Inr d"
    using last_date_ok by blast
  show ?thesis
  proof (cases "is_special_case role location horizon")
    case True
    with assms(7) have h: "horizon = 52"
      by (simp add: is_special_case_def)
    with True assms(3) p p56 lp56 d show ?thesis
      by (simp add: forecast_unfold [OF assms(1,2)] forecast_length_def predict_recursive_def
          build_response_def length_special_dates_52 Let_def)
  next
    case False
    with assms(3) p lp d show ?thesis
      by (simp add: forecast_unfold [OF assms(1,2)] forecast_length_def predict_recursive_def
          build_response_def length_standard_dates Let_def)
  qed
qed

lemma load_model_demo:
  "load_model demo_env ForecastService_init role location =
     (Inr demo_artifact,
      \<lparr>svc_cache = [get_model_key role location \<mapsto> demo_artifact],
       svc_trace = [ArtifactRead (get_artifacts_path role location)]\<rparr>)"
  by (simp add: load_model_def demo_env_def ForecastService_init_def)

lemma load_model_demo_miss:
  "svc_cache s (get_model_key role location) = None \<Longrightarrow>
   load_model demo_env s role location =
     (Inr demo_artifact,
      s\<lparr>svc_cache := (svc_cache s)(get_model_key role location \<mapsto> demo_artifact),
        svc_trace := svc_trace s @ [ArtifactRead (get_artifacts_path role location)]\<rparr>)"
  by (simp add: load_model_def demo_env_def)

lemma load_model_demo_window3:
  "load_model demo_env_window3 ForecastService_init role location =
     (Inr (demo_artifact\<lparr>art_metadata :=
          \<lparr>md_window_size = 3, md_model_type = Some ''lstm'', md_trained_at = None\<rparr>\<rparr>),
      \<lparr>svc_cache = [get_model_key role location \<mapsto> demo_artifact\<lparr>art_metadata :=
          \<lparr>md_window_size = 3, md_model_type = Some ''lstm'', md_trained_at = None\<rparr>\<rparr>],
       svc_trace = [ArtifactRead (get_artifacts_path role location)]\<rparr>)"
  by (simp add: load_model_def demo_env_window3_def demo_env_def ForecastService_init_def)

lemma load_series_demo:
  "load_series demo_env role location (Some MAX_HISTORY_WEEKS) = Inr [(739397, 5)]"
  by (simp add: load_series_def demo_env_def sort_values_def df_tail_def MAX_HISTORY_WEEKS_def)

lemma load_series_demo_window3:
  "load_series demo_env_window3 role location (Some MAX_HISTORY_WEEKS) = Inr [(739397, 5)]"
  by (simp add: load_series_def demo_env_window3_def demo_env_def sort_values_def df_tail_def
      MAX_HISTORY_WEEKS_def)

lemma special_ny: "is_special_case ''Software Engineer'' ''New York, NY'' 52"
  by (simp add: is_special_case_def)

lemma not_special_austin: "\<not> is_special_case ''Data Analyst'' ''Austin, TX'' 8"
  by (simp add: is_special_case_def)

lemma keys_collide: "get_model_key ''a'' ''b|c'' = get_model_key ''a|b'' ''c''"
  by (simp add: get_model_key_def)

lemma predict_values_example:
  "predict_values (\<lambda>w. hd w - 3 / 4) (MinMaxScaler (Some (0, 10, 1 / 10, 0))) [5, 10] 3
   = Inr [0, 5 / 2, 0]"
  by (simp add: predict_values_def numeral_3_eq_3 forecast_step_def Let_def)

subsection \<open>Claims\<close>

text \<open>
  C4, as stated: sample \<open>i\<close> equals \<open>(data[i:i+w], data[i+w])\<close>. The constructor stores
  the samples in single precision. On \<open>data = [16777217, 1, 2]\<close> with window size 1 the
  first sample holds 16777216, the float32 nearest to 16777217, not the data value.
\<close>

theorem window_builder_float32_counterexample:
  "dataset_getitem (TimeSeriesDataset_init [16777217, 1, 2] 1) 0
     = Inr ([Finite32 16777216], Finite32 1)
   \<and> dataset_getitem (TimeSeriesDataset_init [16777217, 1, 2] 1) 0
       \<noteq> Inr ([Finite32 16777217], Finite32 1)"
  by (simp add: dataset_getitem_def py_get_def ds_X_init ds_y_init slice_def
      to_float32_16777217 to_float32_1 upt_conv_Cons)

text \<open>
  C4, amended: for every sequence \<open>data\<close> of length \<open>L\<close> and window size \<open>w\<close> the dataset
  holds exactly \<open>max (L - w) 0\<close> samples; sample \<open>i\<close> is the pair of the elements at
  positions \<open>i, ..., i + w - 1\<close> and the element at position \<open>i + w\<close>, each converted to
  float32; and when \<open>L \<le> w\<close> the constructor returns an empty sample set (it has no
  error branch for a non-negative window size).
\<close>

theorem window_builder_samples:
  "int (dataset_len (TimeSeriesDataset_init data w)) = max (int (length data) - int w) 0
   \<and> (\<forall>i. i < dataset_len (TimeSeriesDataset_init data w) \<longrightarrow>
         dataset_getitem (TimeSeriesDataset_init data w) (int i)
           = Inr (map (\<lambda>k. to_float32 (data ! k)) [i ..< i + w], to_float32 (data ! (i + w))))
   \<and> (length data \<le> w \<longrightarrow>
         ds_X (TimeSeriesDataset_init data w) = [] \<and> ds_y (TimeSeriesDataset_init data w) = []
         \<and> dataset_getitem (TimeSeriesDataset_init data w) 0 = Inl IndexError)"
proof (intro conjI allI impI)
  show "int (dataset_len (TimeSeriesDataset_init data w)) = max (int (length data) - int w) 0"
    by (simp add: dataset_len_def ds_X_init)
next
  fix i
  assume "i < dataset_len (TimeSeriesDataset_init data w)"
  then have i: "i < length data - w"
    by (simp add: dataset_len_def ds_X_init)
  then have "slice data i (i + w) = map ((!) data) [i ..< i + w]"
    by (intro slice_nths) simp
  with i show "dataset_getitem (TimeSeriesDataset_init data w) (int i)
      = Inr (map (\<lambda>k. to_float32 (data ! k)) [i ..< i + w], to_float32 (data ! (i + w)))"
    by (simp add: dataset_getitem_def py_get_nat ds_X_init ds_y_init o_def)
next
  assume "length data \<le> w"
  then show "ds_X (TimeSeriesDataset_init data w) = []"
    by (simp add: ds_X_init)
next
  assume "length data \<le> w"
  then show "ds_y (TimeSeriesDataset_init data w) = []"
    by (simp add: ds_y_init)
next
  assume "length data \<le> w"
  then show "dataset_getitem (TimeSeriesDataset_init data w) 0 = Inl IndexError"
    by (simp add: dataset_getitem_def py_get_empty ds_X_init)
qed

theorem window_builder_samples_witness:
  "dataset_len (TimeSeriesDataset_init [1, 2, 4, 1] 2) = 2
   \<and> dataset_getitem (TimeSeriesDataset_init [1, 2, 4, 1] 2) 0
       = Inr ([Finite32 1, Finite32 2], Finite32 4)
   \<and> dataset_getitem (TimeSeriesDataset_init [1, 2, 4, 1] 2) 1
       = Inr ([Finite32 2, Finite32 4], Finite32 1)
   \<and> ds_X (TimeSeriesDataset_init [1, 2] 3) = []"
proof -
  let ?d = "[1, 2, 4, 1] :: real list"
  note t = window_builder_samples [of ?d 2]
  from t have len: "dataset_len (TimeSeriesDataset_init ?d 2) = 2"
    by simp
  note nth = t [THEN conjunct2, THEN conjunct1, rule_format]
  have u0: "[0 ..< 0 + 2] = [0, 1]" and u1: "[1 ..< 1 + 2] = [1, 2]"
    by (simp_all add: upt_rec)
  have "dataset_getitem (TimeSeriesDataset_init ?d 2) (int 0)
      = Inr (map (\<lambda>k. to_float32 (?d ! k)) [0 ..< 0 + 2], to_float32 (?d ! (0 + 2)))"
    by (rule nth) (simp add: len)
  then have s0: "dataset_getitem (TimeSeriesDataset_init ?d 2) 0
      = Inr ([Finite32 1, Finite32 2], Finite32 4)"
    unfolding u0 by (simp add: to_float32_1 to_float32_2 to_float32_4)
  have "dataset_getitem (TimeSeriesDataset_init ?d 2) (int 1)
      = Inr (map (\<lambda>k. to_float32 (?d ! k)) [1 ..< 1 + 2], to_float32 (?d ! (1 + 2)))"
    by (rule nth) (simp add: len)
  then have s1: "dataset_getitem (TimeSeriesDataset_init ?d 2) 1
      = Inr ([Finite32 2, Finite32 4], Finite32 1)"
    unfolding u1 by (simp add: to_float32_1 to_float32_2 to_float32_4 numeral_3_eq_3)
  have e: "ds_X (TimeSeriesDataset_init [1, 2] 3) = []"
    using window_builder_samples [of "[1, 2]" 3] by simp
  from len s0 s1 e show ?thesis by simp
qed

text \<open>
  C10. \<open>fit\<close> on an empty training sequence does not fail and stores \<open>0.0\<close>, so \<open>predict\<close>
  then returns \<open>horizon\<close> zeros; and after any sequence of \<open>fit\<close> calls on a fresh
  instance, \<open>predict\<close> raises the not-fitted error exactly when that sequence is empty.
\<close>

theorem naive_fit_empty_then_predict:
  "last_value (naive_fit self []) = Some 0
   \<and> (0 \<le> horizon \<longrightarrow>
        naive_predict (naive_fit self []) horizon = Inr (replicate (nat horizon) 0))
   \<and> (naive_predict (naive_after_fits calls) horizon = Inl NotFitted \<longleftrightarrow> calls = [])"
proof (intro conjI impI)
  show "last_value (naive_fit self []) = Some 0"
    by (simp add: naive_fit_def)
next
  assume "0 \<le> horizon"
  then show "naive_predict (naive_fit self []) horizon = Inr (replicate (nat horizon) 0)"
    by (simp add: naive_predict_def naive_fit_def)
next
  show "naive_predict (naive_after_fits calls) horizon = Inl NotFitted \<longleftrightarrow> calls = []"
  proof (cases calls rule: rev_cases)
    case Nil
    then show ?thesis
      by (simp add: naive_predict_def naive_after_fits_def NaiveBaseline_init_def)
  next
    case (snoc cs d)
    then show ?thesis
      by (simp add: naive_predict_def naive_after_fits_snoc)
  qed
qed

theorem naive_fit_empty_then_predict_witness:
  "naive_predict (naive_fit NaiveBaseline_init []) 3 = Inr [0, 0, 0]
   \<and> naive_predict (naive_after_fits [[]]) 3 \<noteq> Inl NotFitted
   \<and> naive_predict (naive_after_fits []) 3 = Inl NotFitted"
proof -
  have r: "replicate (nat 3) (0::real) = [0, 0, 0]"
    by (simp add: numeral_3_eq_3)
  have "naive_predict (naive_fit NaiveBaseline_init []) 3 = Inr (replicate (nat 3) 0)"
    using naive_fit_empty_then_predict [of NaiveBaseline_init 3 "[]"] by simp
  then have a: "naive_predict (naive_fit NaiveBaseline_init []) 3 = Inr [0, 0, 0]"
    unfolding r .
  have b: "naive_predict (naive_after_fits [[]]) 3 \<noteq> Inl NotFitted"
    using naive_fit_empty_then_predict [of NaiveBaseline_init 3 "[[]]"] by simp
  have c: "naive_predict (naive_after_fits []) 3 = Inl NotFitted"
    using naive_fit_empty_then_predict [of NaiveBaseline_init 3 "[]"] by simp
  from a b c show ?thesis by simp
qed

text \<open>
  C2, as stated: the cut indices are \<open>floor(N r_train)\<close> and \<open>floor(N (r_train +
  r_val))\<close>. The source computes \<open>int(n * ratio)\<close> in double precision. At the default
  ratios \<open>0.7, 0.15, 0.15\<close> and 90 rows the product \<open>90 * 0.7\<close> is the double just below
  63, so the parts have 62, 14 and 14 rows where the stated indices give 63, 13 and 14.
  Moreover the ratios \<open>(-1/2, 1, 1/2)\<close> pass the guard, and on two rows \<open>train_end = -1\<close>
  makes \<open>iloc[:-1]\<close> the first row, where the stated interval \<open>[0, -1)\<close> is empty.
\<close>

theorem split_time_series_exact_floor_counterexample:
  "split_lengths (split_time_series (weekly_series 90) (float64_literal (7 / 10))
      (float64_literal (15 / 100)) (float64_literal (15 / 100))) = Inr (62, 14, 14)
   \<and> split_lengths (spec_split (weekly_series 90) (7 / 10) (15 / 100) (15 / 100))
       = Inr (63, 13, 14)
   \<and> split_time_series [(1, 10), (2, 20)] (- 1 / 2) 1 (1 / 2) = Inr ([(1, 10)], [], [(2, 20)])
   \<and> spec_split [(1, 10), (2, 20)] (- 1 / 2) 1 (1 / 2) = Inr ([], [(1, 10)], [(2, 20)])"
  using split_defaults_90 spec_defaults_90 split_negative_ratio spec_negative_ratio
  by (intro conjI)

text \<open>
  C2, amended: for every DataFrame of length \<open>N\<close> and ratios with \<open>r_train \<ge> 0\<close> and
  \<open>r_val \<ge> 0\<close>, \<open>split_time_series\<close> fails with the assertion error unless
  \<open>|r_train + r_val + r_test - 1| < 1e-6\<close> as evaluated in double precision, and otherwise
  returns the rows of the date-sorted series at the indices \<open>[0, a)\<close>, \<open>[a, b)\<close> and
  \<open>[b, N)\<close>, where \<open>a\<close> is the floor of the double-precision product \<open>N * r_train\<close> and
  \<open>b\<close> the floor of the double-precision product of \<open>N\<close> and the double-precision sum
  \<open>r_train + r_val\<close> (a product beyond the doubles raises \<open>OverflowError\<close>); the sorted
  series is ascending by date and a permutation of the input rows.
\<close>

theorem split_time_series_double_arithmetic:
  assumes "0 \<le> r_train" and "0 \<le> r_val"
  shows "split_time_series df r_train r_val r_test = double_split df r_train r_val r_test
     \<and> sorted (map fst (sort_values df)) \<and> mset (sort_values df) = mset df"
  using split_as_double_split [OF assms]
  by (simp add: sort_values_def)

theorem split_time_series_double_arithmetic_witness:
  "double_split [(3, 30), (1, 10), (2, 20), (4, 40)] (1 / 2) (1 / 4) (1 / 4)
     = Inr ([(1, 10), (2, 20)], [(3, 30)], [(4, 40)])
   \<and> double_split [(3, 30), (1, 10), (2, 20), (4, 40)] (1 / 2) (1 / 4) (1 / 8)
       = Inl SplitRatiosAssertion"
proof -
  have h1: "(0 :: real) \<le> 1 / 2" and h2: "(0 :: real) \<le> 1 / 4"
    by simp_all
  have "double_split [(3, 30), (1, 10), (2, 20), (4, 40)] (1 / 2) (1 / 4) (1 / 4)
      = Inr ([(1, 10), (2, 20)], [(3, 30)], [(4, 40)])"
    using split_time_series_double_arithmetic [OF h1 h2,
        of "[(3, 30), (1, 10), (2, 20), (4, 40)]" "1 / 4"] split_example
    by simp
  moreover have "double_split [(3, 30), (1, 10), (2, 20), (4, 40)] (1 / 2) (1 / 4) (1 / 8)
      = Inl SplitRatiosAssertion"
    using split_time_series_double_arithmetic [OF h1 h2,
        of "[(3, 30), (1, 10), (2, 20), (4, 40)]" "1 / 8"] split_rejected_example
    by simp
  ultimately show ?thesis by simp
qed

text \<open>
  C3. With the same training frame, scaler type and optional \<open>scaler\<close> argument (\<open>None\<close>
  by default, for which the scaler is constructed and fitted), two successful calls of
  \<open>prepare_datasets\<close> on arbitrary validation and test frames and window sizes return the
  same scaler; it is the one obtained from the training values alone; and the scaled
  validation and test data of each call are the transforms under that returned scaler, so
  that transforming them has not changed it.
\<close>

theorem scaler_fit_on_train_only:
  assumes "prepare_datasets train_df val1 test1 w1 ty given = Inr p1"
    and "prepare_datasets train_df val2 test2 w2 ty given = Inr p2"
  shows "fitted_scaler p1 = fitted_scaler p2
     \<and> obtain_scaler ty given (values_of train_df) = Inr (fitted_scaler p1)
     \<and> scaler_transform (fitted_scaler p1) (values_of val1) = Inr (ds_data (val_dataset p1))
     \<and> scaler_transform (fitted_scaler p1) (values_of test1) = Inr (ds_data (test_dataset p1))
     \<and> scaler_transform (fitted_scaler p2) (values_of val2) = Inr (ds_data (val_dataset p2))
     \<and> scaler_transform (fitted_scaler p2) (values_of test2) = Inr (ds_data (test_dataset p2))"
  using prepare_datasets_Inr [OF assms(1)] prepare_datasets_Inr [OF assms(2)]
  by simp

theorem scaler_fit_on_train_only_witness:
  "obtain_scaler ''minmax'' None (values_of [(1, 10), (2, 20), (3, 30), (4, 40), (5, 50)])
     = Inr (MinMaxScaler (Some (10, 50, 1 / 40, - (1 / 4))))
   \<and> scaler_transform (MinMaxScaler (Some (10, 50, 1 / 40, - (1 / 4))))
       (values_of [(6, 100), (7, 200), (8, 300)]) = Inr [9 / 4, 19 / 4, 29 / 4]
   \<and> scaler_transform (MinMaxScaler (Some (10, 50, 1 / 40, - (1 / 4))))
       (values_of [(6, 90)]) = Inr [2]"
  using scaler_fit_on_train_only [OF prepare_example_1 prepare_example_2]
  by (simp add: TimeSeriesDataset_init_def Let_def)

text \<open>
  C6. The directional accuracy is the percentage of consecutive pairs on which the signs
  of the true and the predicted change agree. For \<open>y_true = [1, 1]\<close> and
  \<open>y_pred = [1, 0]\<close> the true change is zero and the predicted change is negative: the
  signs differ and the metric so defined is 0, while the source, which compares
  \<open>diff > 0\<close> on both sides, returns 100.
\<close>

theorem directional_accuracy_flat_step:
  "directional_accuracy [1, 1] [1, 0] = Inr (Val 100)
   \<and> spec_directional_accuracy [1, 1] [1, 0] = Val 0"
  by (simp add: directional_accuracy_def np_diff_def np_equal_def np_mean_bool_def
      spec_directional_accuracy_def)

text \<open>
  C8. The key under which training exports and the key under which serving looks the
  artifact up, on the role \<open>Data Analyst\<close> and the location \<open>Austin,TX\<close> (a comma with no
  space after it): training deletes the comma, serving turns it into an underscore.
\<close>

theorem artifact_key_mismatch:
  "train_artifacts_key ''Data Analyst'' ''Austin,TX'' = ''data_analyst_austintx''
   \<and> get_artifacts_path ''Data Analyst'' ''Austin,TX'' = ''data_analyst_austin_tx''"
  by (simp add: train_artifacts_key_def get_artifacts_path_def str_lower_def lower_char_def)

text \<open>
  C1, as stated: whenever the artifact and enough history exist and the horizon is in
  \<open>1..52\<close>, the forecast has exactly \<open>horizon\<close> points. For the role
  \<open>Software Engineer\<close>, the location \<open>New York, NY\<close> and horizon 52 the source takes its
  special case, predicts again with horizon 56 and returns 56 points.
\<close>

theorem forecast_length_special_case_counterexample:
  "forecast_length (forecast demo_env ForecastService_init ''Software Engineer'' ''New York, NY'' 52)
     = Inr 56"
  using forecast_length_general [OF load_model_demo load_series_demo,
      where role = "''Software Engineer''" and location = "''New York, NY''" and horizon = 52]
    special_ny
  by (simp add: demo_artifact_def)

text \<open>
  C1, amended: for every role, location and horizon in \<open>1..52\<close> for which the model
  artifact loads (with a fitted scaler and a window size of at least 1) and the history
  has at least \<open>window_size\<close> points, \<open>forecast\<close> returns a result whose forecast has
  exactly \<open>horizon\<close> points, except that for the role \<open>Software Engineer\<close>, a location
  containing \<open>New York\<close> and horizon 52 it has 56 points.
\<close>

theorem forecast_length_horizon:
  assumes "load_model env self role location = (Inr art, s1)"
    and "load_series env role location (Some MAX_HISTORY_WEEKS) = Inr df"
    and "md_window_size (art_metadata art) \<le> length df"
    and "0 < md_window_size (art_metadata art)"
    and "is_fitted (art_scaler art)"
    and "1 \<le> horizon" and "horizon \<le> 52"
  shows "forecast_length (forecast env self role location horizon)
       = Inr (if is_special_case role location horizon then 56 else nat horizon)"
  using assms by (rule forecast_length_general)

theorem forecast_length_horizon_witness:
  "forecast_length (forecast demo_env ForecastService_init ''Data Analyst'' ''Austin, TX'' 8)
     = Inr 8"
  using forecast_length_horizon [OF load_model_demo load_series_demo,
      where role = "''Data Analyst''" and location = "''Austin, TX''" and horizon = 8]
    not_special_austin
  by (simp add: demo_artifact_def)

text \<open>
  C5. For every predictor, fitted scaler, non-empty seed window and horizon \<open>\<ge> 1\<close>,
  \<open>predict_recursive\<close> returns a sequence of exactly \<open>horizon\<close> values, each \<open>\<ge> 0\<close>; the
  result is the same from any service state (the method is a function of its arguments,
  so repeated calls agree); the first window is the scaled seed window, each later window
  is the previous one without its oldest element and with the previous prediction
  appended, and the returned values are the clamped inverse transforms of the predictions
  made on these windows.
\<close>

theorem predict_recursive_contract:
  assumes "is_fitted sc" and "initial_sequence \<noteq> []" and "1 \<le> horizon"
  shows "\<exists>scaled raw preds.
       scaler_transform sc initial_sequence = Inr scaled
     \<and> scaler_inverse_transform sc
          (map (\<lambda>k. model (window_at model scaled k)) [0 ..< nat horizon]) = Inr raw
     \<and> preds = map (\<lambda>x. max x 0) raw
     \<and> fst (predict_recursive self model sc initial_sequence horizon) = Inr preds
     \<and> fst (predict_recursive other model sc initial_sequence horizon) = Inr preds
     \<and> int (length preds) = horizon
     \<and> list_all (\<lambda>v. 0 \<le> v) preds
     \<and> window_at model scaled 0 = scaled
     \<and> (\<forall>k. window_at model scaled (Suc k)
            = tl (window_at model scaled k) @ [model (window_at model scaled k)])"
proof -
  from predict_values_fitted [OF assms, of model] obtain scaled raw where
    a: "scaler_transform sc initial_sequence = Inr scaled"
    and b: "scaler_inverse_transform sc
          (map (\<lambda>k. model (window_at model scaled k)) [0 ..< nat horizon]) = Inr raw"
    and c: "length raw = nat horizon"
    and d: "predict_values model sc initial_sequence horizon = Inr (map (\<lambda>x. max x 0) raw)"
    by blast
  have e: "list_all (\<lambda>v. 0 \<le> v) (map (\<lambda>x. max x 0) raw)"
    by (simp add: list_all_iff)
  from a b c d e assms(3) show ?thesis
    by (simp add: predict_recursive_def window_at_0 window_at_Suc)
qed

theorem predict_recursive_contract_witness:
  "is_fitted (MinMaxScaler (Some (0, 10, 1 / 10, 0))) \<and> [5, 10 :: real] \<noteq> [] \<and> (1 :: int) \<le> 3
   \<and> fst (predict_recursive ForecastService_init (\<lambda>w. hd w - 3 / 4)
        (MinMaxScaler (Some (0, 10, 1 / 10, 0))) [5, 10] 3) = Inr [0, 5 / 2, 0]
   \<and> window_at (\<lambda>w. hd w - 3 / 4) [1 / 2, 1] (Suc 0) = [1, - (1 / 4)]"
proof -
  have h: "is_fitted (MinMaxScaler (Some (0, 10, 1 / 10, 0)))" "[5, 10 :: real] \<noteq> []"
    "(1 :: int) \<le> 3"
    by simp_all
  from predict_recursive_contract [OF h, where model = "\<lambda>w. hd w - 3 / 4"
      and self = ForecastService_init and other = ForecastService_init]
  obtain preds where
    p: "fst (predict_recursive ForecastService_init (\<lambda>w. hd w - 3 / 4)
        (MinMaxScaler (Some (0, 10, 1 / 10, 0))) [5, 10] 3) = Inr preds"
    and w: "window_at (\<lambda>w. hd w - 3 / 4) [1 / 2, 1] (Suc 0)
            = tl (window_at (\<lambda>w. hd w - 3 / 4) [1 / 2, 1] 0)
              @ [window_at (\<lambda>w. hd w - 3 / 4) [1 / 2, 1] 0 ! 0 - 3 / 4]"
    by (auto simp: hd_conv_nth)
  from p predict_values_example have "preds = [0, 5 / 2, 0]"
    by (simp add: predict_recursive_def)
  with p w h show ?thesis
    by (simp add: window_at_def)
qed

text \<open>
  C7. When the model artifact loads and the loaded history has fewer than \<open>window_size\<close>
  points, \<open>forecast\<close> fails with the insufficient-history error, and the request has
  entered \<open>predict_recursive\<close> not once: the trace holds no more prediction calls after
  the request than before it.
\<close>

theorem insufficient_history:
  assumes "load_model env self role location = (Inr art, s1)"
    and "load_series env role location (Some MAX_HISTORY_WEEKS) = Inr df"
    and "length df < md_window_size (art_metadata art)"
  shows "forecast env self role location horizon
       = (Inl (InsufficientHistory (md_window_size (art_metadata art)) (length df)), s1)
     \<and> predict_calls (snd (forecast env self role location horizon)) = predict_calls self"
  using assms load_model_predict_calls [OF assms(1)]
  by (simp add: forecast_unfold [OF assms(1,2)])

theorem insufficient_history_witness:
  "fst (forecast demo_env_window3 ForecastService_init ''Data Analyst'' ''Austin, TX'' 8)
     = Inl (InsufficientHistory 3 1)
   \<and> predict_calls (snd (forecast demo_env_window3 ForecastService_init
        ''Data Analyst'' ''Austin, TX'' 8)) = []"
  using insufficient_history [OF load_model_demo_window3 load_series_demo_window3,
      where role = "''Data Analyst''" and location = "''Austin, TX''" and horizon = 8]
  by (simp add: demo_artifact_def predict_calls_def ForecastService_init_def)

text \<open>
  C9, as stated: the cache is keyed by a normalized form of the pair, so that requests for
  the same artifact never read it from storage twice. The key is the raw string
  \<open>role|location\<close>: the pairs \<open>(Data Analyst, Austin)\<close> and \<open>(data analyst, Austin)\<close> name
  the same artifact directory, and a forecast for the second after a forecast for the first
  reads that directory a second time and leaves two cache entries, one under each raw key.
\<close>

theorem cache_key_not_normalized_counterexample:
  "get_artifacts_path ''Data Analyst'' ''Austin'' = get_artifacts_path ''data analyst'' ''Austin''
   \<and> artifact_reads (snd (forecast demo_env
         (snd (forecast demo_env ForecastService_init ''Data Analyst'' ''Austin'' 8))
         ''data analyst'' ''Austin'' 8))
       = [ArtifactRead ''data_analyst_austin'', ArtifactRead ''data_analyst_austin'']
   \<and> svc_cache (snd (forecast demo_env
         (snd (forecast demo_env ForecastService_init ''Data Analyst'' ''Austin'' 8))
         ''data analyst'' ''Austin'' 8)) ''Data Analyst|Austin'' = Some demo_artifact
   \<and> svc_cache (snd (forecast demo_env
         (snd (forecast demo_env ForecastService_init ''Data Analyst'' ''Austin'' 8))
         ''data analyst'' ''Austin'' 8)) ''data analyst|Austin'' = Some demo_artifact"
proof -
  have p: "get_artifacts_path ''Data Analyst'' ''Austin'' = ''data_analyst_austin''"
    "get_artifacts_path ''data analyst'' ''Austin'' = ''data_analyst_austin''"
    by (simp_all add: get_artifacts_path_def str_lower_def lower_char_def)
  let ?f1 = "snd (forecast demo_env ForecastService_init ''Data Analyst'' ''Austin'' 8)"
  from forecast_state [OF load_model_demo, of "''Data Analyst''" "''Austin''" 8]
  have f1: "svc_cache ?f1 = [get_model_key ''Data Analyst'' ''Austin'' \<mapsto> demo_artifact]"
    "artifact_reads ?f1 = [ArtifactRead ''data_analyst_austin'']"
    by (simp_all add: artifact_reads_def p)
  have "svc_cache ?f1 (get_model_key ''data analyst'' ''Austin'') = None"
    unfolding f1(1) by (simp add: get_model_key_def)
  then have "load_model demo_env ?f1 ''data analyst'' ''Austin''
      = (Inr demo_artifact,
         ?f1\<lparr>svc_cache := (svc_cache ?f1)(get_model_key ''data analyst'' ''Austin'' \<mapsto> demo_artifact),
             svc_trace := svc_trace ?f1
               @ [ArtifactRead (get_artifacts_path ''data analyst'' ''Austin'')]\<rparr>)"
    by (rule load_model_demo_miss)
  from forecast_state [OF this, of 8] f1 p show ?thesis
    by (simp add: artifact_reads_def get_model_key_def)
qed

text \<open>
  C9, amended: the cache is keyed by the string \<open>role|location\<close>, with no normalization.
  A successful load leaves the artifact in the cache under that key, after one read from
  storage if the key was absent; from then on \<open>load_model\<close> for any pair with the same key
  string returns that entry and leaves the state as it is, whatever the storage holds; a
  forecast request for such a pair adds no read of an artifact and leaves the cache as it
  is; and no forecast request, in any state, removes or replaces an entry.
\<close>

theorem cache_entries_persist:
  assumes "load_model env self role location = (Inr art, s1)"
    and "get_model_key role2 location2 = get_model_key role location"
  shows "svc_cache s1 (get_model_key role location) = Some art
     \<and> (svc_cache self (get_model_key role location) = None \<longrightarrow>
          artifact_reads s1
            = artifact_reads self @ [ArtifactRead (get_artifacts_path role location)])
     \<and> load_model env2 s1 role2 location2 = (Inr art, s1)
     \<and> artifact_reads (snd (forecast env2 s1 role2 location2 horizon)) = artifact_reads s1
     \<and> svc_cache (snd (forecast env2 s1 role2 location2 horizon)) = svc_cache s1
     \<and> (\<forall>(s :: service) e r l h k a. svc_cache s k = Some a \<longrightarrow>
            svc_cache (snd (forecast e s r l h)) k = Some a)"
proof (intro conjI allI impI)
  show c: "svc_cache s1 (get_model_key role location) = Some art"
    using assms(1) by (rule load_model_Inr)
  then show l2: "load_model env2 s1 role2 location2 = (Inr art, s1)"
    using assms(2) by (simp add: load_model_cached)
  from forecast_state [OF l2]
  show "artifact_reads (snd (forecast env2 s1 role2 location2 horizon)) = artifact_reads s1"
    and "svc_cache (snd (forecast env2 s1 role2 location2 horizon)) = svc_cache s1"
    by simp_all
next
  assume "svc_cache self (get_model_key role location) = None"
  with assms(1) show "artifact_reads s1
      = artifact_reads self @ [ArtifactRead (get_artifacts_path role location)]"
    by (auto simp: load_model_def Let_def artifact_reads_def split: if_splits sum.splits)
next
  fix s :: service and e r l h k a
  assume k: "svc_cache s k = Some a"
  obtain res s' where lm: "load_model e s r l = (res, s')"
    by (cases "load_model e s r l")
  from load_model_keeps [OF lm k] forecast_state [OF lm, of h]
  show "svc_cache (snd (forecast e s r l h)) k = Some a"
    by simp
qed

theorem cache_entries_persist_witness:
  "load_model empty_env (snd (load_model demo_env ForecastService_init ''a|b'' ''c'')) ''a'' ''b|c''
     = (Inr demo_artifact, snd (load_model demo_env ForecastService_init ''a|b'' ''c''))
   \<and> artifact_reads (snd (forecast empty_env
         (snd (load_model demo_env ForecastService_init ''a|b'' ''c'')) ''a'' ''b|c'' 8))
       = [ArtifactRead ''a|b_c'']"
  using cache_entries_persist [OF load_model_demo keys_collide,
      where ?env2.0 = empty_env and horizon = 8]
  by (simp add: load_model_demo artifact_reads_def get_artifacts_path_def str_lower_def
      lower_char_def)

end
